theory Spec2Isabelle
  imports Complex_Main "HOL-Library.Word"
begin

section \<open>Python values\<close>

text \<open>
  A Python \<open>str\<close> is a sequence of Unicode code points; it is modelled as a list of
  natural numbers, one per code point.  A literal of the source is written with
  \<open>pystr\<close>, which maps each ASCII character of an Isabelle string to its code point.
\<close>

type_synonym ustr = "nat list"

definition pystr :: "string \<Rightarrow> ustr" where
  "pystr s = map of_char s"

text \<open>Python's \<open>+\<close> on strings is \<open>@\<close>; \<open>sep.join(xs)\<close> is \<open>join sep xs\<close>.\<close>

fun join :: "ustr \<Rightarrow> ustr list \<Rightarrow> ustr" where
  "join sep [] = []"
| "join sep [x] = x"
| "join sep (x # y # ys) = x @ sep @ join sep (y # ys)"

text \<open>
  Exceptions are values: \<open>KeyError\<close> carries the missing key, \<open>NameError\<close> the
  undefined name, \<open>PdfError\<close> and \<open>BackendError\<close> stand for whatever the PDF library
  or a model client raises and carry the text that \<open>str(e)\<close> gives.
\<close>

datatype exn =
    UnicodeDecodeError
  | ValueError
  | KeyError ustr
  | NameError ustr
  | PdfError ustr
  | BackendError ustr

section \<open>The regular expression \<open>(\d+)%\<close>\<close>

text \<open>
  On a \<open>str\<close> pattern \<open>\d\<close> matches every Unicode decimal digit (category Nd), not only
  \<open>0\<close> to \<open>9\<close>.  The decimal digits come in runs of ten consecutive code points, the
  digit zero first; \<open>decimal_zeros\<close> lists the zero of every run (Unicode 14.0, the
  table of CPython 3.11).  The properties proved below use of the table only that
  \<open>%\<close> and the letter \<open>N\<close> are not in it.
\<close>

definition decimal_zeros :: "nat list" where
  "decimal_zeros =
    [48, 1632, 1776, 1984, 2406, 2534, 2662, 2790, 2918, 3046, 3174, 3302, 3430, 3558,
     3664, 3792, 3872, 4160, 4240, 6112, 6160, 6470, 6608, 6784, 6800, 6992, 7088, 7232,
     7248, 42528, 43216, 43264, 43472, 43504, 43600, 44016, 65296, 66720, 68912, 69734,
     69872, 69942, 70096, 70384, 70736, 70864, 71248, 71360, 71472, 71904, 72016, 72784,
     73040, 73120, 92768, 92864, 93008, 120782, 120792, 120802, 120812, 120822, 123200,
     123632, 125264, 130032]"

definition decimal_value :: "nat \<Rightarrow> nat option" where
  "decimal_value c =
     map_option (\<lambda>z. c - z) (find (\<lambda>z. z \<le> c \<and> c < z + 10) decimal_zeros)"

definition is_decimal :: "nat \<Rightarrow> bool" where
  "is_decimal c = (decimal_value c \<noteq> None)"

definition percent :: nat where
  "percent = 37"

text \<open>
  \<open>match_here s\<close> is the match of \<open>(\d+)%\<close> anchored at the start of \<open>s\<close>, as the
  backtracking matcher finds it: \<open>\d+\<close> is greedy, so it first takes the whole run of
  digits and then gives digits back one at a time until a \<open>%\<close> follows; at least one
  digit must remain.  The value is group 1 of the match.
\<close>

fun try_len :: "ustr \<Rightarrow> nat \<Rightarrow> ustr option" where
  "try_len s 0 = None"
| "try_len s (Suc k) =
     (if Suc k < length s \<and> s ! Suc k = percent then Some (take (Suc k) s)
      else try_len s k)"

definition match_here :: "ustr \<Rightarrow> ustr option" where
  "match_here s = try_len s (length (takeWhile is_decimal s))"

text \<open>
  \<open>re.search\<close> tries the start positions from left to right and returns the first
  match; \<open>re_search s\<close> is \<open>None\<close> when there is none, and otherwise group 1 of the
  match (the scripts read nothing else of the match object).
\<close>

fun re_search :: "ustr \<Rightarrow> ustr option" where
  "re_search [] = None"
| "re_search (c # cs) =
     (case match_here (c # cs) of Some g \<Rightarrow> Some g | None \<Rightarrow> re_search cs)"

section \<open>Percentage extraction\<close>

text \<open>
  \<^verbatim>\<open>app2.py\<close>, \<open>extract_percentage\<close>:
  \<^verbatim>\<open>match = re.search(r"(\d+)%", response_text)\<close>,
  \<^verbatim>\<open>if match: return match.group(1)\<close>, \<^verbatim>\<open>return "N/A"\<close>.
\<close>

definition app2_extract_percentage :: "ustr \<Rightarrow> ustr" where
  "app2_extract_percentage response_text =
     (case re_search response_text of Some g \<Rightarrow> g | None \<Rightarrow> pystr ''N/A'')"

text \<open>
  \<^verbatim>\<open>app3.py\<close>, \<open>extract_percentage\<close>: the search is run twice,
  \<^verbatim>\<open>re.search(...).group(1) if re.search(...) else "N/A"\<close>.
\<close>

definition app3_extract_percentage :: "ustr \<Rightarrow> ustr" where
  "app3_extract_percentage text =
     (if re_search text \<noteq> None then the (re_search text) else pystr ''N/A'')"

text \<open>\<^verbatim>\<open>appfinal.py\<close>, \<open>extract_match_percentage\<close>.\<close>

definition extract_match_percentage :: "ustr \<Rightarrow> ustr" where
  "extract_match_percentage text =
     (case re_search text of Some g \<Rightarrow> g | None \<Rightarrow> pystr ''N/A'')"

text \<open>
  The specification's reading of a match: \<open>percent_at t i k\<close> says that at index \<open>i\<close>
  of \<open>t\<close> there are \<open>k \<ge> 1\<close> decimal digits immediately followed by a literal \<open>%\<close>.
\<close>

definition percent_at :: "ustr \<Rightarrow> nat \<Rightarrow> nat \<Rightarrow> bool" where
  "percent_at t i k =
     (1 \<le> k \<and> i + k < length t \<and> (\<forall>j<k. is_decimal (t ! (i + j))) \<and> t ! (i + k) = percent)"

section \<open>Uploaded documents and text extraction\<close>

text \<open>
  An uploaded file, as the scripts see it: its name, the bytes \<open>read()\<close> returns, and
  what the PDF library makes of it.  \<open>pdf_pages\<close> is either the exception
  \<^verbatim>\<open>pdf.PdfReader(file)\<close> raises or the list \<^verbatim>\<open>reader.pages\<close>; a page is the outcome
  of its \<^verbatim>\<open>extract_text()\<close>: an exception, \<open>None\<close>, or a string.
\<close>

type_synonym byte = "8 word"

type_synonym page = "exn + ustr option"

record uploaded_file =
  file_name :: ustr
  file_bytes :: "byte list"
  pdf_pages :: "exn + page list"

text \<open>\<^verbatim>\<open>x or ""\<close> for \<open>x\<close> a string or \<open>None\<close>: a falsy \<open>x\<close> (\<open>None\<close>, \<open>""\<close>) gives \<open>""\<close>.\<close>

definition or_empty :: "ustr option \<Rightarrow> ustr" where
  "or_empty x = (case x of None \<Rightarrow> [] | Some t \<Rightarrow> (if t = [] then [] else t))"

text \<open>
  \<^verbatim>\<open>app2.py\<close>, \<open>extract_text_from_pdf\<close> (\<open>input_pdf_text\<close> of \<^verbatim>\<open>main2.py\<close> is the
  same code): \<^verbatim>\<open>text = ""\<close>, then for every page index in order
  \<^verbatim>\<open>text += reader.pages[page].extract_text() or ""\<close>.
\<close>

fun pdf_loop :: "page list \<Rightarrow> ustr \<Rightarrow> exn + ustr" where
  "pdf_loop [] text = Inr text"
| "pdf_loop (p # ps) text =
     (case p of Inl e \<Rightarrow> Inl e | Inr x \<Rightarrow> pdf_loop ps (text @ or_empty x))"

definition app2_extract_text_from_pdf :: "uploaded_file \<Rightarrow> exn + ustr" where
  "app2_extract_text_from_pdf uploaded_file =
     (case pdf_pages uploaded_file of
        Inl e \<Rightarrow> Inl e
      | Inr pages \<Rightarrow> pdf_loop pages [])"

definition input_pdf_text :: "uploaded_file \<Rightarrow> exn + ustr" where
  "input_pdf_text uploaded_file =
     (case pdf_pages uploaded_file of
        Inl e \<Rightarrow> Inl e
      | Inr pages \<Rightarrow> pdf_loop pages [])"

text \<open>
  \<^verbatim>\<open>appfinal.py\<close>, \<open>extract_pdf_text\<close>:
  \<^verbatim>\<open>" ".join(page.extract_text() or "" for page in reader.pages)\<close>.
  \<open>page_texts\<close> is the generator: the pages are read in order and the first exception
  ends it.
\<close>

fun page_texts :: "page list \<Rightarrow> exn + ustr list" where
  "page_texts [] = Inr []"
| "page_texts (p # ps) =
     (case p of
        Inl e \<Rightarrow> Inl e
      | Inr x \<Rightarrow> (case page_texts ps of Inl e \<Rightarrow> Inl e | Inr ts \<Rightarrow> Inr (or_empty x # ts)))"

definition extract_pdf_text :: "uploaded_file \<Rightarrow> exn + ustr" where
  "extract_pdf_text file =
     (case pdf_pages file of
        Inl e \<Rightarrow> Inl e
      | Inr pages \<Rightarrow>
          (case page_texts pages of Inl e \<Rightarrow> Inl e | Inr ts \<Rightarrow> Inr (join (pystr '' '') ts)))"

subsection \<open>UTF-8\<close>

text \<open>
  \<^verbatim>\<open>bytes.decode("utf-8")\<close> with the default strict error handling: the well-formed
  byte sequences of the Unicode standard are decoded, anything else (a stray or missing
  continuation byte, an overlong form, a surrogate, a value above U+10FFFF) raises
  \<open>UnicodeDecodeError\<close>.  The decoder works on the numeric values of the bytes.
\<close>

definition is_cont :: "nat \<Rightarrow> bool" where
  "is_cont b = (128 \<le> b \<and> b < 192)"

definition cons_ok :: "nat \<Rightarrow> exn + ustr \<Rightarrow> exn + ustr" where
  "cons_ok c r = (case r of Inl e \<Rightarrow> Inl e | Inr cs \<Rightarrow> Inr (c # cs))"

fun decode_from :: "nat list \<Rightarrow> exn + ustr" where
  "decode_from [] = Inr []"
| "decode_from (b # bs) =
     (if b < 128 then cons_ok b (decode_from bs)
      else if 194 \<le> b \<and> b < 224 then
        (case bs of
           c1 # r \<Rightarrow>
             if is_cont c1 then cons_ok ((b - 192) * 64 + (c1 - 128)) (decode_from r)
             else Inl UnicodeDecodeError
         | _ \<Rightarrow> Inl UnicodeDecodeError)
      else if 224 \<le> b \<and> b < 240 then
        (case bs of
           c1 # c2 # r \<Rightarrow>
             let cp = (b - 224) * 4096 + (c1 - 128) * 64 + (c2 - 128)
             in if is_cont c1 \<and> is_cont c2 \<and> 2048 \<le> cp \<and> \<not> (55296 \<le> cp \<and> cp < 57344)
                then cons_ok cp (decode_from r)
                else Inl UnicodeDecodeError
         | _ \<Rightarrow> Inl UnicodeDecodeError)
      else if 240 \<le> b \<and> b < 245 then
        (case bs of
           c1 # c2 # c3 # r \<Rightarrow>
             let cp = (b - 240) * 262144 + (c1 - 128) * 4096 + (c2 - 128) * 64 + (c3 - 128)
             in if is_cont c1 \<and> is_cont c2 \<and> is_cont c3 \<and> 65536 \<le> cp \<and> cp < 1114112
                then cons_ok cp (decode_from r)
                else Inl UnicodeDecodeError
         | _ \<Rightarrow> Inl UnicodeDecodeError)
      else Inl UnicodeDecodeError)"

definition utf8_decode :: "byte list \<Rightarrow> exn + ustr" where
  "utf8_decode bs = decode_from (map unat bs)"

text \<open>
  \<open>extract_text_from_txt\<close> of \<^verbatim>\<open>app2.py\<close> and \<open>extract_txt_text\<close> of \<^verbatim>\<open>appfinal.py\<close>:
  \<^verbatim>\<open>uploaded_file.read().decode("utf-8")\<close>.
\<close>

definition app2_extract_text_from_txt :: "uploaded_file \<Rightarrow> exn + ustr" where
  "app2_extract_text_from_txt uploaded_file = utf8_decode (file_bytes uploaded_file)"

definition extract_txt_text :: "uploaded_file \<Rightarrow> exn + ustr" where
  "extract_txt_text file = utf8_decode (file_bytes file)"

text \<open>
  The specification's side of the round trip: the UTF-8 encoding of a sequence of
  Unicode scalar values (code points up to U+10FFFF that are not surrogates).  A byte
  sequence is valid UTF-8 when it is the encoding of such a sequence.
\<close>

definition is_scalar :: "nat \<Rightarrow> bool" where
  "is_scalar c = (c < 55296 \<or> (57344 \<le> c \<and> c < 1114112))"

definition encode_cp :: "nat \<Rightarrow> nat list" where
  "encode_cp c =
     (if c < 128 then [c]
      else if c < 2048 then [192 + c div 64, 128 + c mod 64]
      else if c < 65536 then [224 + c div 4096, 128 + (c div 64) mod 64, 128 + c mod 64]
      else [240 + c div 262144, 128 + (c div 4096) mod 64, 128 + (c div 64) mod 64,
            128 + c mod 64])"

definition utf8_encode :: "ustr \<Rightarrow> byte list" where
  "utf8_encode cs = map of_nat (concat (map encode_cp cs))"

definition valid_utf8 :: "byte list \<Rightarrow> bool" where
  "valid_utf8 bs = (\<exists>cs. list_all is_scalar cs \<and> bs = utf8_encode cs)"

subsection \<open>Example documents\<close>

text \<open>
  \<open>demo_txt\<close> holds the UTF-8 bytes of the four code points U+0048, U+00E9, U+20AC and
  U+1F600 (one, two, three and four bytes); it is not a PDF.  \<open>demo_pdf\<close> has three pages,
  the second without extractable text; \<open>blank_pdf\<close> has two pages, neither with
  extractable text.
\<close>

definition demo_txt :: uploaded_file where
  "demo_txt = \<lparr>file_name = pystr ''cv.txt'',
     file_bytes = [72, 195, 169, 226, 130, 172, 240, 159, 152, 128],
     pdf_pages = Inl (PdfError (pystr ''EOF marker not found''))\<rparr>"

definition demo_pdf :: uploaded_file where
  "demo_pdf = \<lparr>file_name = pystr ''cv.pdf'', file_bytes = [],
     pdf_pages = Inr [Inr (Some (pystr ''ab'')), Inr None, Inr (Some (pystr ''c''))]\<rparr>"

definition blank_pdf :: uploaded_file where
  "blank_pdf = \<lparr>file_name = pystr ''scan.pdf'', file_bytes = [],
     pdf_pages = Inr [Inr None, Inr (Some [])]\<rparr>"

section \<open>Calls to the Gemini model\<close>

text \<open>
  The remote model is an input of the embedding.  A \<open>backend\<close> maps the prompt sent to
  the outcome of \<^verbatim>\<open>model.generate_content(prompt)\<close> followed by \<^verbatim>\<open>response.text\<close>:
  \<open>Inr text\<close> when both succeed, \<open>Inl msg\<close> when either raises an exception \<open>e\<close> with
  \<open>str(e) = msg\<close>.  Every function records what it did as a list of events: a
  \<open>Generate\<close> for each prompt sent to the model, an \<open>Extract\<close> for each call of the
  percentage extraction.
\<close>

type_synonym backend = "ustr \<Rightarrow> ustr + ustr"

datatype event = Generate ustr | Extract ustr

definition nl :: ustr where
  "nl = [10]"

text \<open>\<^verbatim>\<open>app2.py\<close>, \<open>get_gemini_response\<close>: the prompt template and the guarded call.\<close>

definition app2_full_prompt :: "ustr \<Rightarrow> ustr \<Rightarrow> ustr \<Rightarrow> ustr" where
  "app2_full_prompt job_desc resume_text prompt =
     nl @ pystr ''    Job Description:'' @ nl @ pystr ''    '' @ job_desc @ nl @ nl
     @ pystr ''    Resume:'' @ nl @ pystr ''    '' @ resume_text @ nl @ nl
     @ pystr ''    Task:'' @ nl @ pystr ''    '' @ prompt @ nl @ pystr ''    ''"

definition app2_get_gemini_response ::
  "backend \<Rightarrow> ustr \<Rightarrow> ustr \<Rightarrow> ustr \<Rightarrow> bool \<Rightarrow> ustr \<times> event list" where
  "app2_get_gemini_response gemini job_desc resume_text prompt extract_percent =
     (let full_prompt = app2_full_prompt job_desc resume_text prompt
      in case gemini full_prompt of
           Inl msg \<Rightarrow> (pystr ''Error: '' @ msg, [Generate full_prompt])
         | Inr text \<Rightarrow>
             if text = [] then (pystr ''No response generated.'', [Generate full_prompt])
             else if extract_percent
               then (app2_extract_percentage text, [Generate full_prompt, Extract text])
             else (text, [Generate full_prompt]))"

text \<open>
  \<^verbatim>\<open>app3.py\<close>, \<open>get_gemini_response\<close>.  The last line of the template is
  \<^verbatim>\<open>f"Respond in {SUPPORTED_LANGUAGES[language]}" if language != "en" else ""\<close>; the
  lookup raises \<open>KeyError\<close> for a language that is not in the dictionary.  Nothing is
  caught: an exception of the call propagates to the caller.
\<close>

definition SUPPORTED_LANGUAGES :: "ustr \<rightharpoonup> ustr" where
  "SUPPORTED_LANGUAGES = map_of
     [(pystr ''en'', pystr ''English''), (pystr ''hi'', pystr ''Hindi''),
      (pystr ''ru'', pystr ''Russian''), (pystr ''es'', pystr ''Spanish''),
      (pystr ''fr'', pystr ''French''), (pystr ''de'', pystr ''German'')]"

definition app3_respond_in :: "ustr \<Rightarrow> exn + ustr" where
  "app3_respond_in language =
     (if language \<noteq> pystr ''en''
      then (case SUPPORTED_LANGUAGES language of
              None \<Rightarrow> Inl (KeyError language)
            | Some name \<Rightarrow> Inr (pystr ''Respond in '' @ name))
      else Inr [])"

definition app3_prompt :: "ustr \<Rightarrow> ustr \<Rightarrow> ustr \<Rightarrow> ustr \<Rightarrow> ustr" where
  "app3_prompt job_desc resume_text prompt respond_in =
     nl @ pystr ''    Job Description: '' @ job_desc @ nl
     @ pystr ''    Resume: '' @ resume_text @ nl
     @ pystr ''    Task: '' @ prompt @ nl
     @ pystr ''    '' @ respond_in @ nl @ pystr ''    ''"

definition app3_get_gemini_response ::
  "backend \<Rightarrow> ustr \<Rightarrow> ustr \<Rightarrow> ustr \<Rightarrow> bool \<Rightarrow> ustr \<Rightarrow> (exn + ustr) \<times> event list" where
  "app3_get_gemini_response gemini job_desc resume_text prompt extract_percent language =
     (case app3_respond_in language of
        Inl e \<Rightarrow> (Inl e, [])
      | Inr respond_in \<Rightarrow>
          (let p = app3_prompt job_desc resume_text prompt respond_in
           in case gemini p of
                Inl msg \<Rightarrow> (Inl (BackendError msg), [Generate p])
              | Inr text \<Rightarrow>
                  if extract_percent
                  then (Inr (app3_extract_percentage text), [Generate p, Extract text])
                  else (Inr text, [Generate p])))"

text \<open>
  \<^verbatim>\<open>appfinal.py\<close>, \<open>analyze_with_gemini\<close>:
  \<^verbatim>\<open>lang_instruction = f"Respond in {LANGUAGES[language]}." if language != "en" else ""\<close>,
  then the call with the template; nothing is caught.
\<close>

definition LANGUAGES :: "ustr \<rightharpoonup> ustr" where
  "LANGUAGES = map_of
     [(pystr ''en'', pystr ''English''), (pystr ''hi'', pystr ''Hindi''),
      (pystr ''ru'', pystr ''Russian''), (pystr ''es'', pystr ''Spanish''),
      (pystr ''fr'', pystr ''French'')]"

definition lang_instruction :: "ustr \<Rightarrow> exn + ustr" where
  "lang_instruction language =
     (if language \<noteq> pystr ''en''
      then (case LANGUAGES language of
              None \<Rightarrow> Inl (KeyError language)
            | Some name \<Rightarrow> Inr (pystr ''Respond in '' @ name @ pystr ''.''))
      else Inr [])"

definition appfinal_prompt :: "ustr \<Rightarrow> ustr \<Rightarrow> ustr \<Rightarrow> ustr \<Rightarrow> ustr" where
  "appfinal_prompt job_desc resume_text prompt instruction =
     nl @ pystr ''    Job Description: '' @ job_desc @ nl
     @ pystr ''    Resume: '' @ resume_text @ nl
     @ pystr ''    Task: '' @ prompt @ pystr '' '' @ instruction @ nl @ pystr ''    ''"

definition analyze_with_gemini ::
  "backend \<Rightarrow> ustr \<Rightarrow> ustr \<Rightarrow> ustr \<Rightarrow> ustr \<Rightarrow> (exn + ustr) \<times> event list" where
  "analyze_with_gemini gemini job_desc resume_text prompt language =
     (case lang_instruction language of
        Inl e \<Rightarrow> (Inl e, [])
      | Inr instruction \<Rightarrow>
          (let p = appfinal_prompt job_desc resume_text prompt instruction
           in case gemini p of
                Inl msg \<Rightarrow> (Inl (BackendError msg), [Generate p])
              | Inr text \<Rightarrow> (Inr text, [Generate p])))"

subsection \<open>Example backends\<close>

text \<open>
  A backend whose call fails with the message \<open>503 Service Unavailable\<close>, one that
  answers every prompt with \<open>150%\<close>, and one that answers with the text of the
  sentinel of \<^verbatim>\<open>app2.py\<close>.
\<close>

definition failing_backend :: backend where
  "failing_backend p = Inl (pystr ''503 Service Unavailable'')"

definition backend_150 :: backend where
  "backend_150 p = Inr (pystr ''150%'')"

definition backend_sentinel :: backend where
  "backend_sentinel p = Inr (pystr ''No response generated.'')"

definition backend_empty :: backend where
  "backend_empty p = Inr []"

text \<open>The prompts an event list says were sent to the model, in order.\<close>

fun prompts_sent :: "event list \<Rightarrow> ustr list" where
  "prompts_sent [] = []"
| "prompts_sent (Generate p # evs) = p # prompts_sent evs"
| "prompts_sent (Extract t # evs) = prompts_sent evs"

text \<open>The request of the specification's scenario.\<close>

definition demo_job :: ustr where
  "demo_job = pystr ''Need Python and SQL''"
definition demo_resume :: ustr where
  "demo_resume = pystr ''Skilled in Python''"
definition demo_instruction :: ustr where
  "demo_instruction = pystr ''return match percentage''"

section \<open>The multi-provider page \<^verbatim>\<open>main2.py\<close>\<close>

text \<open>
  The four remote services are inputs of the embedding, each a function from what is
  sent to the outcome of the client call and of unwrapping its response (\<open>Inr text\<close>,
  or \<open>Inl msg\<close> when an exception with that message is raised).  Every outbound call
  is recorded.
\<close>

record backends =
  gemini_generate :: "ustr list \<Rightarrow> ustr + ustr"
  openai_chat :: "ustr \<Rightarrow> ustr + ustr"
  claude_messages :: "ustr \<Rightarrow> ustr + ustr"
  cohere_generate :: "ustr \<Rightarrow> ustr + ustr"

datatype outbound =
    Gemini_call "ustr list"
  | OpenAI_call ustr
  | Claude_call ustr
  | Cohere_call ustr

text \<open>\<open>get_gemini_response\<close>: the three texts are passed as a list; nothing is caught.\<close>

definition main2_get_gemini_response ::
  "backends \<Rightarrow> ustr \<Rightarrow> ustr \<Rightarrow> ustr \<Rightarrow> (exn + ustr) \<times> outbound list" where
  "main2_get_gemini_response B input_text pdf_content prompt =
     (case gemini_generate B [input_text, pdf_content, prompt] of
        Inl msg \<Rightarrow> (Inl (BackendError msg), [Gemini_call [input_text, pdf_content, prompt]])
      | Inr text \<Rightarrow> (Inr text, [Gemini_call [input_text, pdf_content, prompt]]))"

text \<open>\<open>get_gpt_response\<close>: the call is inside \<^verbatim>\<open>try\<close>; an exception becomes a message.\<close>

definition get_gpt_response ::
  "backends \<Rightarrow> ustr \<Rightarrow> ustr \<Rightarrow> ustr \<Rightarrow> ustr \<times> outbound list" where
  "get_gpt_response B input_text pdf_content prompt =
     (let full_prompt = input_text @ nl @ nl @ pdf_content @ nl @ nl @ prompt
      in case openai_chat B full_prompt of
           Inl msg \<Rightarrow> (pystr ''Error: '' @ msg, [OpenAI_call full_prompt])
         | Inr text \<Rightarrow> (text, [OpenAI_call full_prompt]))"

definition get_claude_response ::
  "backends \<Rightarrow> ustr \<Rightarrow> ustr \<Rightarrow> ustr \<Rightarrow> (exn + ustr) \<times> outbound list" where
  "get_claude_response B input_text pdf_content prompt =
     (let content = input_text @ nl @ nl @ pdf_content @ nl @ nl @ prompt
      in case claude_messages B content of
           Inl msg \<Rightarrow> (Inl (BackendError msg), [Claude_call content])
         | Inr text \<Rightarrow> (Inr text, [Claude_call content]))"

definition get_cohere_response ::
  "backends \<Rightarrow> ustr \<Rightarrow> ustr \<Rightarrow> ustr \<Rightarrow> (exn + ustr) \<times> outbound list" where
  "get_cohere_response B input_text pdf_content prompt =
     (let p = input_text @ nl @ nl @ pdf_content @ nl @ nl @ prompt
      in case cohere_generate B p of
           Inl msg \<Rightarrow> (Inl (BackendError msg), [Cohere_call p])
         | Inr text \<Rightarrow> (Inr text, [Cohere_call p]))"

text \<open>
  \<open>get_hf_summary\<close> calls \<open>hf_summarizer\<close>, whose definition is commented out in the
  script: looking the name up raises \<open>NameError\<close> before anything else happens.
\<close>

definition get_hf_summary :: "ustr \<Rightarrow> (exn + ustr) \<times> outbound list" where
  "get_hf_summary pdf_content = (Inl (NameError (pystr ''hf_summarizer'')), [])"

text \<open>
  The selection chain of \<open>generate_ai_response\<close> (the body of its \<^verbatim>\<open>with st.spinner\<close>
  block): \<open>ai_choice\<close> is compared with the five names in turn; the final \<^verbatim>\<open>else\<close>
  assigns the message.  The first character of the message is U+274C.
\<close>

definition invalid_selection :: ustr where
  "invalid_selection = 10060 # pystr '' Invalid AI Selection''"

definition select_response ::
  "backends \<Rightarrow> ustr \<Rightarrow> ustr \<Rightarrow> ustr \<Rightarrow> ustr \<Rightarrow> (exn + ustr) \<times> outbound list" where
  "select_response B ai_choice input_text pdf_content prompt =
     (if ai_choice = pystr ''Gemini''
        then main2_get_gemini_response B input_text pdf_content prompt
      else if ai_choice = pystr ''ChatGPT''
        then (case get_gpt_response B input_text pdf_content prompt of
                (response, calls) \<Rightarrow> (Inr response, calls))
      else if ai_choice = pystr ''Claude''
        then get_claude_response B input_text pdf_content prompt
      else if ai_choice = pystr ''Cohere''
        then get_cohere_response B input_text pdf_content prompt
      else if ai_choice = pystr ''HuggingFace''
        then get_hf_summary pdf_content
      else (Inr invalid_selection, []))"

text \<open>
  \<^verbatim>\<open>title.lower()\<close> and the substring test \<^verbatim>\<open>"job description" not in ...\<close>.
  \<open>lower\<close> maps the letters \<open>A\<close> to \<open>Z\<close> and leaves every other code point as it is,
  which is what \<^verbatim>\<open>str.lower\<close> does on ASCII text; the eight titles the script passes
  are ASCII.  For other titles the test still comes out as in Python: the only
  characters outside ASCII whose lower-case form holds an ASCII letter are U+0130
  (\<open>i\<close> and a combining dot) and U+212A (\<open>k\<close>), and neither can take part in an
  occurrence of the search text.
\<close>

definition lower :: "ustr \<Rightarrow> ustr" where
  "lower s = map (\<lambda>c. if 65 \<le> c \<and> c \<le> 90 then c + 32 else c) s"

fun starts_with :: "ustr \<Rightarrow> ustr \<Rightarrow> bool" where
  "starts_with [] s = True"
| "starts_with (p # ps) [] = False"
| "starts_with (p # ps) (c # cs) = (p = c \<and> starts_with ps cs)"

fun contains :: "ustr \<Rightarrow> ustr \<Rightarrow> bool" where
  "contains sub [] = (sub = [])"
| "contains sub (c # cs) = (starts_with sub (c # cs) \<or> contains sub cs)"

text \<open>
  The widgets of the page as one run of the script sees them: the job-description
  text area, the uploaded file (or none), the selected tool, and for each button title
  whether that button was clicked.  \<open>ui\<close> is what the run writes to the page.
\<close>

record widgets =
  w_input_text :: ustr
  w_uploaded_file :: "uploaded_file option"
  w_ai_choice :: ustr
  w_button :: "ustr \<Rightarrow> bool"

datatype ui = Subheader ustr | Write ustr | Warning ustr

text \<open>
  \<open>generate_ai_response\<close>.  The dictionary \<open>prompts\<close> of the script is a parameter: only
  the lookup \<^verbatim>\<open>prompts[prompt_key]\<close> matters here.  The warning starts with U+26A0,
  U+FE0F.
\<close>

definition generate_ai_response ::
  "backends \<Rightarrow> (ustr \<rightharpoonup> ustr) \<Rightarrow> widgets \<Rightarrow> ustr \<Rightarrow> ustr \<Rightarrow> (exn + ui list) \<times> outbound list"
  where
  "generate_ai_response B prompts W title prompt_key =
     (if w_button W title then
        (case w_uploaded_file W of
           Some uploaded_file \<Rightarrow>
             if \<not> contains (pystr ''job description'') (lower title) \<or> w_input_text W \<noteq> []
             then
               (case input_pdf_text uploaded_file of
                  Inl e \<Rightarrow> (Inl e, [])
                | Inr pdf_content \<Rightarrow>
                    (case prompts prompt_key of
                       None \<Rightarrow> (Inl (KeyError prompt_key), [])
                     | Some prompt \<Rightarrow>
                         (case select_response B (w_ai_choice W) (w_input_text W) pdf_content
                                 prompt of
                            (Inl e, calls) \<Rightarrow> (Inl e, calls)
                          | (Inr response, calls) \<Rightarrow>
                              (Inr [Subheader (w_ai_choice W @ pystr '' Response for '' @ title
                                      @ pystr '':''),
                                    Write response], calls))))
             else (Inr [Warning ([9888, 65039]
                     @ pystr '' Please upload a resume and provide a job description.'')], [])
         | None \<Rightarrow>
             (Inr [Warning ([9888, 65039]
                @ pystr '' Please upload a resume and provide a job description.'')], []))
      else (Inr [], []))"

subsection \<open>Example page\<close>

text \<open>
  Four services that answer \<open>ok\<close>, and a page on which a one-page PDF is uploaded, the
  tool \<open>unknown\<close> is selected and every button counts as clicked.
\<close>

definition demo_backends :: backends where
  "demo_backends = \<lparr>gemini_generate = (\<lambda>p. Inr (pystr ''ok'')),
     openai_chat = (\<lambda>p. Inr (pystr ''ok'')),
     claude_messages = (\<lambda>p. Inr (pystr ''ok'')),
     cohere_generate = (\<lambda>p. Inr (pystr ''ok''))\<rparr>"

definition demo_prompts :: "ustr \<rightharpoonup> ustr" where
  "demo_prompts = map_of [(pystr ''resume_summary'', pystr ''Provide a detailed summary'')]"

definition demo_widgets :: widgets where
  "demo_widgets = \<lparr>w_input_text = pystr ''Need Python and SQL'',
     w_uploaded_file = Some \<lparr>file_name = pystr ''cv.pdf'', file_bytes = [],
        pdf_pages = Inr [Inr (Some (pystr ''Skilled in Python''))]\<rparr>,
     w_ai_choice = pystr ''unknown'',
     w_button = (\<lambda>title. True)\<rparr>"

text \<open>The names the selection chain knows.\<close>

definition providers :: "ustr set" where
  "providers =
     {pystr ''Gemini'', pystr ''ChatGPT'', pystr ''Claude'', pystr ''Cohere'',
      pystr ''HuggingFace''}"

section \<open>Numbers from extracted text\<close>

text \<open>
  \<^verbatim>\<open>int(match)\<close> and \<^verbatim>\<open>float(match_percent)\<close> are applied to what the percentage
  extraction returns, which is a non-empty run of decimal digits or the marker \<open>N/A\<close>
  (lemma \<open>extracted_shape\<close> below).  On a digit run both give its value, the digits of
  every script counting with their decimal value; on \<open>N/A\<close> both raise \<open>ValueError\<close>.
  The signs, underscores and surrounding white space that \<open>int\<close> and \<open>float\<close> also
  accept cannot occur in these arguments and are not modelled: every other string is
  rejected here.  \<open>max_digits\<close> is \<^verbatim>\<open>sys.int_max_str_digits\<close>, the longest digit string
  \<open>int\<close> converts (4300 by default since CPython 3.11, \<open>0\<close> for no limit).

  \<open>float\<close> has no such limit.  Its result is the 64-bit float nearest to the value
  (53 significant bits, a tie going to the even neighbour), or \<open>inf\<close> when that is
  \<open>2 ^ 1024\<close> or more.  A \<open>pyfloat\<close> is such a result: a finite float, given by the
  real number it is, or \<open>inf\<close>.  \<open>bitlen n\<close> is the number of binary digits of \<open>n\<close>.
\<close>

definition digit_of :: "nat \<Rightarrow> nat" where
  "digit_of c = (case decimal_value c of Some d \<Rightarrow> d | None \<Rightarrow> 0)"

definition digits_value :: "ustr \<Rightarrow> nat" where
  "digits_value s = foldl (\<lambda>a c. 10 * a + digit_of c) 0 s"

definition py_int :: "nat \<Rightarrow> ustr \<Rightarrow> exn + int" where
  "py_int max_digits s =
     (if s \<noteq> [] \<and> list_all is_decimal s
      then (if 0 < max_digits \<and> max_digits < length s then Inl ValueError
            else Inr (int (digits_value s)))
      else Inl ValueError)"

datatype pyfloat = Finite real | Infinity

fun bitlen :: "nat \<Rightarrow> nat" where
  "bitlen n = (if n = 0 then 0 else Suc (bitlen (n div 2)))"

declare bitlen.simps [simp del]

definition round_double :: "nat \<Rightarrow> pyfloat" where
  "round_double n =
     (let e = bitlen n - 53; q = n div 2 ^ e; r = n mod 2 ^ e;
          q' = (if 2 ^ e < 2 * r \<or> (2 * r = 2 ^ e \<and> odd q) then q + 1 else q)
      in if 2 ^ 1024 \<le> q' * 2 ^ e then Infinity else Finite (real (q' * 2 ^ e)))"

definition py_float :: "ustr \<Rightarrow> exn + pyfloat" where
  "py_float s =
     (if s \<noteq> [] \<and> list_all is_decimal s then Inr (round_double (digits_value s))
      else Inl ValueError)"

fun pf_nonneg :: "pyfloat \<Rightarrow> bool" where
  "pf_nonneg (Finite x) = (0 \<le> x)"
| "pf_nonneg Infinity = True"

section \<open>Summary statistics\<close>

text \<open>
  NumPy's aggregates.  On an empty array \<^verbatim>\<open>np.mean\<close>, \<^verbatim>\<open>np.median\<close> and \<^verbatim>\<open>np.std\<close>
  return \<open>nan\<close> with a warning, and \<^verbatim>\<open>np.max\<close> and \<^verbatim>\<open>np.min\<close> raise \<open>ValueError\<close>; both
  statistics functions of the scripts call one of the latter, so on an empty list
  they end with that exception.  On a non-empty array the values are idealised: the
  scores are taken as real numbers and the aggregates are the exact ones, without the
  rounding of 64-bit arithmetic and without NumPy's treatment of integers too large for
  64 bits.  The claims below rest on the empty case only.
\<close>

definition np_mean :: "real list \<Rightarrow> real" where
  "np_mean xs = sum_list xs / real (length xs)"

definition np_median :: "real list \<Rightarrow> real" where
  "np_median xs =
     (let ys = sort xs; n = length ys
      in if even n then (ys ! (n div 2 - 1) + ys ! (n div 2)) / 2 else ys ! (n div 2))"

definition np_std :: "real list \<Rightarrow> real" where
  "np_std xs = sqrt (np_mean (map (\<lambda>x. (x - np_mean xs)\<^sup>2) xs))"

definition np_max :: "real list \<Rightarrow> exn + real" where
  "np_max xs = (case xs of [] \<Rightarrow> Inl ValueError | x # r \<Rightarrow> Inr (fold max r x))"

definition np_min :: "real list \<Rightarrow> exn + real" where
  "np_min xs = (case xs of [] \<Rightarrow> Inl ValueError | x # r \<Rightarrow> Inr (fold min r x))"

text \<open>
  \<^verbatim>\<open>app3.py\<close>, \<open>calculate_match_stats\<close>: the table of metric names and values; the
  values are computed in the order mean, median, standard deviation, maximum, minimum.
\<close>

definition calculate_match_stats :: "int list \<Rightarrow> exn + (ustr \<times> real) list" where
  "calculate_match_stats scores =
     (let xs = map real_of_int scores
      in case np_max xs of
           Inl e \<Rightarrow> Inl e
         | Inr hi \<Rightarrow>
             (case np_min xs of
                Inl e \<Rightarrow> Inl e
              | Inr lo \<Rightarrow>
                  Inr [(pystr ''Mean'', np_mean xs), (pystr ''Median'', np_median xs),
                       (pystr ''Std Dev'', np_std xs), (pystr ''Max'', hi),
                       (pystr ''Min'', lo)]))"

text \<open>
  The same aggregates on floats that may be \<open>inf\<close> (none is negative or \<open>nan\<close> here):
  \<open>inf\<close> is the largest value, and a sum or an average with \<open>inf\<close> in it is \<open>inf\<close>.
  \<open>finite_values\<close> are the finite elements of a list; \<open>sorted_at xs i\<close> is the element of
  index \<open>i\<close> when \<open>xs\<close> is sorted.
\<close>

definition finite_values :: "pyfloat list \<Rightarrow> real list" where
  "finite_values xs = concat (map (\<lambda>x. case x of Finite r \<Rightarrow> [r] | Infinity \<Rightarrow> []) xs)"

definition sorted_at :: "pyfloat list \<Rightarrow> nat \<Rightarrow> pyfloat" where
  "sorted_at xs i =
     (let fs = sort (finite_values xs) in if i < length fs then Finite (fs ! i) else Infinity)"

definition half_sum :: "pyfloat \<Rightarrow> pyfloat \<Rightarrow> pyfloat" where
  "half_sum a b =
     (case (a, b) of (Finite x, Finite y) \<Rightarrow> Finite ((x + y) / 2) | _ \<Rightarrow> Infinity)"

definition pf_mean :: "pyfloat list \<Rightarrow> pyfloat" where
  "pf_mean xs =
     (if length (finite_values xs) = length xs then Finite (np_mean (finite_values xs))
      else Infinity)"

definition pf_median :: "pyfloat list \<Rightarrow> pyfloat" where
  "pf_median xs =
     (let n = length xs
      in if even n then half_sum (sorted_at xs (n div 2 - 1)) (sorted_at xs (n div 2))
         else sorted_at xs (n div 2))"

definition pf_min :: "pyfloat list \<Rightarrow> exn + pyfloat" where
  "pf_min xs = (if xs = [] then Inl ValueError else Inr (sorted_at xs 0))"

definition pf_max :: "pyfloat list \<Rightarrow> exn + pyfloat" where
  "pf_max xs = (if xs = [] then Inl ValueError else Inr (sorted_at xs (length xs - 1)))"

text \<open>
  \<^verbatim>\<open>appfinal.py\<close>, \<open>ResumeInsights.score_stats\<close>: the average, the median and the range
  (minimum, maximum).  The script formats the numbers into strings; the formatting is
  not modelled.
\<close>

record score_summary =
  Average :: pyfloat
  Median :: pyfloat
  Range :: "pyfloat \<times> pyfloat"

definition score_stats :: "pyfloat list \<Rightarrow> exn + score_summary" where
  "score_stats scores =
     (case pf_min scores of
        Inl e \<Rightarrow> Inl e
      | Inr lo \<Rightarrow>
          (case pf_max scores of
             Inl e \<Rightarrow> Inl e
           | Inr hi \<Rightarrow>
               Inr \<lparr>Average = pf_mean scores, Median = pf_median scores, Range = (lo, hi)\<rparr>))"

text \<open>
  The second column of the \<open>Advanced Analysis\<close> expander of \<^verbatim>\<open>appfinal.py\<close>:
  \<^verbatim>\<open>if st.session_state.scores:\<close> guards the call of \<open>score_stats\<close>.  \<open>None\<close> says that
  the statistics were not computed, \<open>Some r\<close> that they were, with outcome \<open>r\<close>.
\<close>

definition advanced_analysis_col2 :: "pyfloat list \<Rightarrow> (exn + score_summary) option" where
  "advanced_analysis_col2 scores = (if scores \<noteq> [] then Some (score_stats scores) else None)"

section \<open>The session of \<^verbatim>\<open>app3.py\<close>\<close>

text \<open>
  The session state, and its initial value: \<^verbatim>\<open>historical_scores\<close> starts as
  \<^verbatim>\<open>list(np.random.randint(50, 95, 10))\<close>, ten integers from 50 to 94; the draw is an
  input.  \<open>resume_text\<close> can be \<open>None\<close>, which \<open>extract_text_from_file\<close> returns for a
  file it cannot process.
\<close>

record app3_state =
  a3_resume_text :: "ustr option"
  a3_job_desc :: ustr
  a3_language :: ustr
  historical_scores :: "int list"

definition randint_draw :: "int list \<Rightarrow> bool" where
  "randint_draw rnd = (length rnd = 10 \<and> (\<forall>x \<in> set rnd. 50 \<le> x \<and> x < 95))"

definition app3_init :: "int list \<Rightarrow> app3_state" where
  "app3_init rnd =
     \<lparr>a3_resume_text = Some [], a3_job_desc = [], a3_language = pystr ''en'',
      historical_scores = rnd\<rparr>"

text \<open>
  \<open>get_prompt\<close>: \<^verbatim>\<open>prompts[key].get(language, prompts[key]["en"])\<close>.  The table of
  instruction texts is a parameter; the default \<^verbatim>\<open>prompts[key]["en"]\<close> is evaluated
  before the lookup of the language.
\<close>

definition get_prompt :: "(ustr \<rightharpoonup> (ustr \<rightharpoonup> ustr)) \<Rightarrow> ustr \<Rightarrow> ustr \<Rightarrow> exn + ustr" where
  "get_prompt prompts key language =
     (case prompts key of
        None \<Rightarrow> Inl (KeyError key)
      | Some d \<Rightarrow>
          (case d (pystr ''en'') of
             None \<Rightarrow> Inl (KeyError (pystr ''en''))
           | Some en \<Rightarrow> Inr (case d language of None \<Rightarrow> en | Some t \<Rightarrow> t)))"

text \<open>
  One run of the script: the sidebar stores the selected language, then the selected
  page runs.  A page carries what its widgets hold in this run: for \<open>Upload Resume\<close>
  the value \<open>extract_text_from_file\<close> returned for the chosen file (or no file), for
  \<open>Job Description\<close> the text of the text area.  A run returns the new state and the
  exception that ended it, if any.  \<^verbatim>\<open>app3.py\<close> uses \<open>px\<close> without importing it, so
  the \<open>Home\<close> page ends with \<open>NameError\<close> after it has appended the score, and the
  \<open>Analyze\<close> page after its second tab.
\<close>

datatype app3_page =
    Home
  | Upload_Resume "ustr option option"
  | Job_Description ustr
  | Analyze

definition truthy :: "ustr option \<Rightarrow> bool" where
  "truthy x = (case x of None \<Rightarrow> False | Some t \<Rightarrow> t \<noteq> [])"

definition app3_home ::
  "nat \<Rightarrow> backend \<Rightarrow> (ustr \<rightharpoonup> (ustr \<rightharpoonup> ustr)) \<Rightarrow> app3_state \<Rightarrow> app3_state \<times> exn option"
  where
  "app3_home max_digits gemini prompts S =
     (if truthy (a3_resume_text S) \<and> a3_job_desc S \<noteq> [] then
        (case get_prompt prompts (pystr ''percentage_match'') (a3_language S) of
           Inl e \<Rightarrow> (S, Some e)
         | Inr prompt \<Rightarrow>
             (case fst (app3_get_gemini_response gemini (a3_job_desc S)
                          (or_empty (a3_resume_text S)) prompt True (a3_language S)) of
                Inl e \<Rightarrow> (S, Some e)
              | Inr match \<Rightarrow>
                  (case py_int max_digits match of
                     Inl e \<Rightarrow> (S, Some e)
                   | Inr v \<Rightarrow>
                       (S\<lparr>historical_scores := historical_scores S @ [v]\<rparr>,
                        Some (NameError (pystr ''px''))))))
      else (S, None))"

definition app3_analyze ::
  "backend \<Rightarrow> (ustr \<rightharpoonup> (ustr \<rightharpoonup> ustr)) \<Rightarrow> app3_state \<Rightarrow> app3_state \<times> exn option" where
  "app3_analyze gemini prompts S =
     (if \<not> truthy (a3_resume_text S) \<or> a3_job_desc S = [] then (S, None)
      else
        (case get_prompt prompts (pystr ''resume_summary'') (a3_language S) of
           Inl e \<Rightarrow> (S, Some e)
         | Inr prompt \<Rightarrow>
             (case fst (app3_get_gemini_response gemini (a3_job_desc S)
                          (or_empty (a3_resume_text S)) prompt False (a3_language S)) of
                Inl e \<Rightarrow> (S, Some e)
              | Inr summary \<Rightarrow>
                  (case calculate_match_stats (historical_scores S) of
                     Inl e \<Rightarrow> (S, Some e)
                   | Inr stats \<Rightarrow> (S, Some (NameError (pystr ''px'')))))))"

definition app3_run ::
  "nat \<Rightarrow> backend \<Rightarrow> (ustr \<rightharpoonup> (ustr \<rightharpoonup> ustr)) \<Rightarrow> app3_state \<Rightarrow> ustr \<Rightarrow> app3_page
     \<Rightarrow> app3_state \<times> exn option" where
  "app3_run max_digits gemini prompts S0 language page =
     (let S = S0\<lparr>a3_language := language\<rparr>
      in case page of
           Home \<Rightarrow> app3_home max_digits gemini prompts S
         | Upload_Resume None \<Rightarrow> (S, None)
         | Upload_Resume (Some extracted) \<Rightarrow> (S\<lparr>a3_resume_text := extracted\<rparr>, None)
         | Job_Description job_desc \<Rightarrow>
             (if job_desc \<noteq> [] then (S\<lparr>a3_job_desc := job_desc\<rparr>, None) else (S, None))
         | Analyze \<Rightarrow> app3_analyze gemini prompts S)"

text \<open>The states a session can be in: the initial one, and any reached by a run.\<close>

inductive app3_reachable :: "app3_state \<Rightarrow> bool" where
  start: "randint_draw rnd \<Longrightarrow> app3_reachable (app3_init rnd)"
| run: "app3_reachable S \<Longrightarrow>
        app3_reachable (fst (app3_run max_digits gemini prompts S language page))"

section \<open>The session of \<^verbatim>\<open>appfinal.py\<close>\<close>

record appfinal_state =
  af_resume :: ustr
  af_job_desc :: ustr
  af_language :: ustr
  scores :: "pyfloat list"

definition appfinal_init :: appfinal_state where
  "appfinal_init =
     \<lparr>af_resume = [], af_job_desc = [], af_language = pystr ''en'', scores = []\<rparr>"

text \<open>
  The session state starts with empty texts, the language \<open>en\<close> and no scores.
  The pages: \<open>Upload\<close> carries the outcome of \<open>process_file\<close> for the chosen file (or no
  file); the page catches its exception.  \<open>JD\<close> stores the text area's content, empty
  or not.  \<open>Analyze\<close> calls the model for eight tabs in turn; the second tab appends
  \<^verbatim>\<open>float(match_percent)\<close> to the scores; an exception anywhere ends the run.  After
  the tabs comes the expander, whose first column (the word counts of the resume) does
  not read the scores and whose second column is \<open>advanced_analysis_col2\<close>.
\<close>

datatype appfinal_page =
    AF_Home
  | AF_Upload "(exn + ustr) option"
  | AF_JD ustr
  | AF_Analyze

fun run_tabs :: "(ustr \<Rightarrow> exn + ustr) \<Rightarrow> ustr list \<Rightarrow> exn option" where
  "run_tabs ask [] = None"
| "run_tabs ask (p # ps) = (case ask p of Inl e \<Rightarrow> Some e | Inr response \<Rightarrow> run_tabs ask ps)"

definition later_tabs :: "ustr list" where
  "later_tabs =
     [pystr ''List specific improvements needed for this resume to better match the job description'',
      pystr ''List the most important keywords missing from the resume compared to the job description'',
      pystr ''Generate 5 potential interview questions based on this resume and job description'',
      pystr ''Provide 3 concrete suggestions to improve this resume for the specific job'',
      pystr ''Rate the overall fit between this resume and job description on a scale of 1-10 with justification'',
      pystr ''List the top 10 skills from the resume that are most relevant to the job description'']"

definition summary_tab :: ustr where
  "summary_tab = pystr ''Provide a detailed professional summary of this resume''"

definition match_tab :: ustr where
  "match_tab =
     pystr ''Compare the resume with the job description and return ONLY the match percentage (e.g., ''
     @ [39] @ pystr ''75%'' @ [39] @ pystr '')''"

definition appfinal_analyze :: "backend \<Rightarrow> appfinal_state \<Rightarrow> appfinal_state \<times> exn option" where
  "appfinal_analyze gemini S =
     (let ask = (\<lambda>prompt. fst (analyze_with_gemini gemini (af_job_desc S) (af_resume S) prompt
                                 (af_language S)))
      in if af_resume S = [] \<or> af_job_desc S = [] then (S, None)
         else
           (case ask summary_tab of
              Inl e \<Rightarrow> (S, Some e)
            | Inr response \<Rightarrow>
                (case ask match_tab of
                   Inl e \<Rightarrow> (S, Some e)
                 | Inr match \<Rightarrow>
                     (case py_float (extract_match_percentage match) of
                        Inl e \<Rightarrow> (S, Some e)
                      | Inr v \<Rightarrow>
                          (let S' = S\<lparr>scores := scores S @ [v]\<rparr>
                           in case run_tabs ask later_tabs of
                                Some e \<Rightarrow> (S', Some e)
                              | None \<Rightarrow>
                                  (case advanced_analysis_col2 (scores S') of
                                     Some (Inl e) \<Rightarrow> (S', Some e)
                                   | _ \<Rightarrow> (S', None)))))))"

definition appfinal_run ::
  "backend \<Rightarrow> appfinal_state \<Rightarrow> ustr \<Rightarrow> appfinal_page \<Rightarrow> appfinal_state \<times> exn option" where
  "appfinal_run gemini S0 language page =
     (let S = S0\<lparr>af_language := language\<rparr>
      in case page of
           AF_Home \<Rightarrow> (S, None)
         | AF_Upload None \<Rightarrow> (S, None)
         | AF_Upload (Some (Inl e)) \<Rightarrow> (S, None)
         | AF_Upload (Some (Inr resume)) \<Rightarrow> (S\<lparr>af_resume := resume\<rparr>, None)
         | AF_JD job_desc \<Rightarrow> (S\<lparr>af_job_desc := job_desc\<rparr>, None)
         | AF_Analyze \<Rightarrow> appfinal_analyze gemini S)"

inductive appfinal_reachable :: "appfinal_state \<Rightarrow> bool" where
  af_start: "appfinal_reachable appfinal_init"
| af_run: "appfinal_reachable S \<Longrightarrow>
        appfinal_reachable (fst (appfinal_run gemini S language page))"

subsection \<open>Example session\<close>

text \<open>
  A draw of \<^verbatim>\<open>app3.py\<close>'s ten initial scores, a table with the English instruction for
  the match percentage, and a session in which a resume is uploaded, a job description
  is entered, and the \<open>Home\<close> page then runs against a model that answers \<open>150%\<close>.
\<close>

definition demo_draw :: "int list" where
  "demo_draw = [50, 51, 52, 53, 54, 55, 56, 57, 58, 59]"

definition demo_table :: "ustr \<rightharpoonup> (ustr \<rightharpoonup> ustr)" where
  "demo_table = map_of
     [(pystr ''percentage_match'', map_of [(pystr ''en'', pystr ''return match percentage'')])]"

definition demo_session :: app3_state where
  "demo_session =
     (let S1 = fst (app3_run 4300 backend_150 demo_table (app3_init demo_draw) (pystr ''en'')
                      (Upload_Resume (Some (Some demo_resume))));
          S2 = fst (app3_run 4300 backend_150 demo_table S1 (pystr ''en'')
                      (Job_Description demo_job))
      in fst (app3_run 4300 backend_150 demo_table S2 (pystr ''en'') Home))"

text \<open>
  The same in \<^verbatim>\<open>appfinal.py\<close>: the resume is uploaded, the job description entered,
  and the \<open>Analyze\<close> page runs against the model that answers \<open>150%\<close>.
\<close>

definition demo_final_session :: appfinal_state where
  "demo_final_session =
     (let S1 = fst (appfinal_run backend_150 appfinal_init (pystr ''en'')
                      (AF_Upload (Some (Inr demo_resume))));
          S2 = fst (appfinal_run backend_150 S1 (pystr ''en'') (AF_JD demo_job))
      in fst (appfinal_run backend_150 S2 (pystr ''en'') AF_Analyze))"


section \<open>Properties of the regular expression search\<close>

lemma is_decimal_ascii: "c < 256 \<Longrightarrow> is_decimal c = (48 \<le> c \<and> c \<le> 57)"
  by (auto simp add: is_decimal_def decimal_value_def decimal_zeros_def)

lemma percent_not_decimal: "\<not> is_decimal percent"
  by (simp add: is_decimal_ascii percent_def)

lemma try_len_no_percent:
  "(\<And>k. k < n \<Longrightarrow> k < length s \<Longrightarrow> s ! k \<noteq> percent) \<Longrightarrow>
   try_len s n = (if 1 \<le> n \<and> n < length s \<and> s ! n = percent then Some (take n s) else None)"
proof (induction n)
  case 0
  show ?case by simp
next
  case (Suc n)
  have "try_len s n = None"
  proof (cases "n < length s")
    case True
    with Suc.prems[of n] have "s ! n \<noteq> percent" by simp
    moreover have "try_len s n = (if 1 \<le> n \<and> n < length s \<and> s ! n = percent then Some (take n s) else None)"
      using Suc.prems by (intro Suc.IH) simp
    ultimately show ?thesis by simp
  next
    case False
    moreover have "try_len s n = (if 1 \<le> n \<and> n < length s \<and> s ! n = percent then Some (take n s) else None)"
      using Suc.prems by (intro Suc.IH) simp
    ultimately show ?thesis by simp
  qed
  then show ?case by simp
qed

lemma match_here_eq:
  "match_here s =
     (let n = length (takeWhile is_decimal s)
      in if 1 \<le> n \<and> n < length s \<and> s ! n = percent then Some (take n s) else None)"
proof -
  have "s ! k \<noteq> percent" if "k < length (takeWhile is_decimal s)" for k
  proof -
    have "takeWhile is_decimal s ! k \<in> set (takeWhile is_decimal s)"
      using that by simp
    then have "is_decimal (takeWhile is_decimal s ! k)"
      by (rule set_takeWhileD[THEN conjunct2])
    then have "is_decimal (s ! k)" using that by (simp add: takeWhile_nth)
    then show ?thesis using percent_not_decimal by auto
  qed
  then show ?thesis
    unfolding match_here_def Let_def by (intro try_len_no_percent) simp
qed

lemma percent_at_0_iff:
  "percent_at s 0 k \<longleftrightarrow>
     k = length (takeWhile is_decimal s) \<and> 1 \<le> k \<and> k < length s \<and> s ! k = percent"
proof
  assume h: "percent_at s 0 k"
  then have k: "1 \<le> k" "k < length s" "s ! k = percent" and d: "\<And>j. j < k \<Longrightarrow> is_decimal (s ! j)"
    by (simp_all add: percent_at_def)
  have "takeWhile is_decimal s = take k s"
    using d k percent_not_decimal by (intro takeWhile_eq_take_P_nth) auto
  then have "length (takeWhile is_decimal s) = k" using k by simp
  with k show "k = length (takeWhile is_decimal s) \<and> 1 \<le> k \<and> k < length s \<and> s ! k = percent"
    by simp
next
  assume "k = length (takeWhile is_decimal s) \<and> 1 \<le> k \<and> k < length s \<and> s ! k = percent"
  then have hk: "k = length (takeWhile is_decimal s)"
    and h: "1 \<le> k" "k < length s" "s ! k = percent" by blast+
  have "is_decimal (s ! j)" if "j < k" for j
  proof -
    have "takeWhile is_decimal s ! j \<in> set (takeWhile is_decimal s)" using that hk by simp
    then have "is_decimal (takeWhile is_decimal s ! j)" by (rule set_takeWhileD[THEN conjunct2])
    then show ?thesis using that hk by (simp add: takeWhile_nth)
  qed
  with h show "percent_at s 0 k" unfolding percent_at_def by simp
qed

lemma match_here_Some_iff:
  "match_here s = Some g \<longleftrightarrow> (\<exists>k. percent_at s 0 k \<and> g = take k s)"
  by (auto simp add: match_here_eq percent_at_0_iff Let_def)

lemma match_here_None_iff:
  "match_here s = None \<longleftrightarrow> (\<forall>k. \<not> percent_at s 0 k)"
  by (auto simp add: match_here_eq percent_at_0_iff Let_def)

lemma percent_at_Cons_Suc: "percent_at (c # cs) (Suc i) k = percent_at cs i k"
  by (simp add: percent_at_def)

lemma percent_at_unique: "percent_at s i k \<Longrightarrow> percent_at s i k' \<Longrightarrow> k = k'"
proof (rule ccontr)
  assume a: "percent_at s i k" and b: "percent_at s i k'" and ne: "k \<noteq> k'"
  { fix m n assume m: "percent_at s i m" and n: "percent_at s i n" and lt: "m < n"
    from n lt have "is_decimal (s ! (i + m))" by (simp add: percent_at_def)
    moreover from m have "s ! (i + m) = percent" by (simp add: percent_at_def)
    ultimately have False using percent_not_decimal by simp }
  with a b ne show False by (metis linorder_neqE_nat)
qed

lemma re_search_None_iff: "re_search s = None \<longleftrightarrow> (\<forall>i k. \<not> percent_at s i k)"
proof (induction s)
  case Nil
  show ?case by (simp add: percent_at_def)
next
  case (Cons c cs)
  have "(\<forall>i k. \<not> percent_at (c # cs) i k) \<longleftrightarrow>
        (\<forall>k. \<not> percent_at (c # cs) 0 k) \<and> (\<forall>i k. \<not> percent_at cs i k)"
    (is "?L \<longleftrightarrow> ?R")
  proof
    assume ?L then show ?R by (metis percent_at_Cons_Suc)
  next
    assume r: ?R
    show ?L
    proof (intro allI)
      fix i k show "\<not> percent_at (c # cs) i k"
        using r by (cases i) (simp_all add: percent_at_Cons_Suc)
    qed
  qed
  moreover have "re_search (c # cs) = None \<longleftrightarrow>
      match_here (c # cs) = None \<and> re_search cs = None"
    by (simp split: option.splits)
  ultimately show ?case
    using Cons.IH by (simp add: match_here_None_iff)
qed

lemma re_search_Some:
  "re_search s = Some g \<Longrightarrow>
   \<exists>i k. percent_at s i k \<and> (\<forall>i' k'. percent_at s i' k' \<longrightarrow> i \<le> i') \<and> g = take k (drop i s)"
proof (induction s)
  case Nil
  then show ?case by simp
next
  case (Cons c cs)
  show ?case
  proof (cases "match_here (c # cs)")
    case (Some g')
    with Cons.prems have "g' = g" by simp
    with Some obtain k where "percent_at (c # cs) 0 k" "g = take k (c # cs)"
      by (auto simp add: match_here_Some_iff)
    then have "percent_at (c # cs) 0 k \<and> (\<forall>i' k'. percent_at (c # cs) i' k' \<longrightarrow> 0 \<le> i')
        \<and> g = take k (drop 0 (c # cs))" by simp
    then show ?thesis by blast
  next
    case None
    with Cons.prems have "re_search cs = Some g" by simp
    from Cons.IH[OF this] obtain i k where
      ik: "percent_at cs i k" "\<forall>i' k'. percent_at cs i' k' \<longrightarrow> i \<le> i'" "g = take k (drop i cs)"
      by blast
    have "\<forall>i' k'. percent_at (c # cs) i' k' \<longrightarrow> Suc i \<le> i'"
    proof (intro allI impI)
      fix i' k' assume p: "percent_at (c # cs) i' k'"
      show "Suc i \<le> i'"
      proof (cases i')
        case 0
        with p None show ?thesis by (simp add: match_here_None_iff)
      next
        case (Suc j)
        with p have "percent_at cs j k'" by (simp add: percent_at_Cons_Suc)
        with ik(2) have "i \<le> j" by blast
        with Suc show ?thesis by simp
      qed
    qed
    with ik have "percent_at (c # cs) (Suc i) k \<and> (\<forall>i' k'. percent_at (c # cs) i' k' \<longrightarrow> Suc i \<le> i')
        \<and> g = take k (drop (Suc i) (c # cs))"
      by (simp add: percent_at_Cons_Suc)
    then show ?thesis by blast
  qed
qed

lemma digits_not_NA:
  "percent_at t i k \<Longrightarrow> take k (drop i t) \<noteq> pystr ''N/A''"
proof
  assume p: "percent_at t i k" and e: "take k (drop i t) = pystr ''N/A''"
  from p have "take k (drop i t) ! 0 = t ! (i + 0)" by (simp add: percent_at_def)
  moreover from p have "is_decimal (t ! (i + 0))" unfolding percent_at_def by (metis less_eq_Suc_le One_nat_def)
  ultimately have "is_decimal (pystr ''N/A'' ! 0)" using e by simp
  then show False by (simp add: pystr_def is_decimal_ascii)
qed

section \<open>Claims\<close>

text \<open>
  C1.  Percentage extraction (\<open>extract_percentage\<close> of \<^verbatim>\<open>app2.py\<close>,
  \<open>extract_match_percentage\<close> of \<^verbatim>\<open>appfinal.py\<close>): when the text contains one or more
  decimal digits immediately followed by \<open>%\<close>, the result is the digit run of the
  occurrence with the least start index (the run at that index is unique), and it is
  not the marker; when the text contains no such substring, the result is the marker
  \<open>N/A\<close>, which is not a digit run.
\<close>

theorem extract_percentage_first_occurrence:
  "(if \<exists>i k. percent_at t i k
    then \<exists>i k. percent_at t i k \<and> (\<forall>i' k'. percent_at t i' k' \<longrightarrow> i \<le> i')
           \<and> (\<forall>k'. percent_at t i k' \<longrightarrow> k' = k)
           \<and> app2_extract_percentage t = take k (drop i t)
           \<and> app2_extract_percentage t \<noteq> pystr ''N/A''
    else app2_extract_percentage t = pystr ''N/A'')
   \<and> extract_match_percentage t = app2_extract_percentage t"
proof -
  have same: "extract_match_percentage t = app2_extract_percentage t"
    by (simp add: extract_match_percentage_def app2_extract_percentage_def)
  show ?thesis
  proof (cases "re_search t")
    case None
    then have "\<not> (\<exists>i k. percent_at t i k)" by (simp add: re_search_None_iff)
    with None same show ?thesis by (simp add: app2_extract_percentage_def)
  next
    case (Some g)
    from re_search_Some[OF Some] obtain i k where
      ik: "percent_at t i k" "\<forall>i' k'. percent_at t i' k' \<longrightarrow> i \<le> i'" "g = take k (drop i t)"
      by blast
    have u: "\<forall>k'. percent_at t i k' \<longrightarrow> k' = k"
      using ik(1) percent_at_unique by blast
    have e: "app2_extract_percentage t = take k (drop i t)"
      using Some ik(3) by (simp add: app2_extract_percentage_def)
    have "app2_extract_percentage t \<noteq> pystr ''N/A''"
      using e digits_not_NA[OF ik(1)] by simp
    with ik(1,2) u e have
      "\<exists>i k. percent_at t i k \<and> (\<forall>i' k'. percent_at t i' k' \<longrightarrow> i \<le> i')
           \<and> (\<forall>k'. percent_at t i k' \<longrightarrow> k' = k)
           \<and> app2_extract_percentage t = take k (drop i t)
           \<and> app2_extract_percentage t \<noteq> pystr ''N/A''" by blast
    moreover have "\<exists>i k. percent_at t i k" using ik(1) by blast
    ultimately show ?thesis using same by simp
  qed
qed

text \<open>The scenario of the specification: the text \<open>The match is 62%\<close> yields \<open>62\<close>.\<close>

theorem extract_percentage_first_occurrence_witness:
  "percent_at (pystr ''The match is 62%'') 13 2
   \<and> app2_extract_percentage (pystr ''The match is 62%'') = pystr ''62''
   \<and> extract_match_percentage (pystr ''The match is 62%'') = pystr ''62''"
proof -
  have p: "percent_at (pystr ''The match is 62%'') 13 2"
    by (simp add: percent_at_def pystr_def is_decimal_ascii percent_def numeral_2_eq_2
        All_less_Suc)
  then have "\<exists>i k. percent_at (pystr ''The match is 62%'') i k" by blast
  moreover have "app2_extract_percentage (pystr ''The match is 62%'') = pystr ''62''"
    by (simp add: app2_extract_percentage_def match_here_def pystr_def is_decimal_ascii
        percent_def)
  ultimately show ?thesis
    using p extract_percentage_first_occurrence[of "pystr ''The match is 62%''"] by simp
qed

section \<open>Properties of the UTF-8 decoder\<close>

lemma split64: "(c::nat) mod 4096 = 64 * (c div 64 mod 64) + c mod 64"
  using mod_mult2_eq[of c 64 64] by simp

lemma split4096: "(c::nat) mod 262144 = 4096 * (c div 4096 mod 64) + c mod 4096"
  using mod_mult2_eq[of c 4096 64] by simp

lemma decode_2: 
  "2 \<le> q \<Longrightarrow> q < 32 \<Longrightarrow> r < 64 \<Longrightarrow>
   decode_from ((192 + q) # (128 + r) # rest) = cons_ok (q * 64 + r) (decode_from rest)"
  by (simp add: is_cont_def)

lemma decode_3: 
  "q < 16 \<Longrightarrow> r1 < 64 \<Longrightarrow> r2 < 64 \<Longrightarrow> 2048 \<le> q * 4096 + r1 * 64 + r2 \<Longrightarrow>
   \<not> (55296 \<le> q * 4096 + r1 * 64 + r2 \<and> q * 4096 + r1 * 64 + r2 < 57344) \<Longrightarrow>
   decode_from ((224 + q) # (128 + r1) # (128 + r2) # rest) =
     cons_ok (q * 4096 + r1 * 64 + r2) (decode_from rest)"
  by (simp add: is_cont_def Let_def)

lemma decode_4: 
  "q < 5 \<Longrightarrow> r1 < 64 \<Longrightarrow> r2 < 64 \<Longrightarrow> r3 < 64 \<Longrightarrow>
   65536 \<le> q * 262144 + r1 * 4096 + r2 * 64 + r3 \<Longrightarrow>
   q * 262144 + r1 * 4096 + r2 * 64 + r3 < 1114112 \<Longrightarrow>
   decode_from ((240 + q) # (128 + r1) # (128 + r2) # (128 + r3) # rest) =
     cons_ok (q * 262144 + r1 * 4096 + r2 * 64 + r3) (decode_from rest)"
  by (simp add: is_cont_def Let_def)

lemma decode_encode_cp:
  assumes "is_scalar c"
  shows "decode_from (encode_cp c @ rest) = cons_ok c (decode_from rest)"
proof -
  have bound: "c < 1114112" using assms by (auto simp add: is_scalar_def)
  consider (a) "c < 128" | (b) "128 \<le> c" "c < 2048" | (c) "2048 \<le> c" "c < 65536"
    | (d) "65536 \<le> c" "c < 1114112"
    using bound by linarith
  then show ?thesis
  proof cases
    case a
    then show ?thesis by (simp add: encode_cp_def)
  next
    case b
    have e: "encode_cp c @ rest = (192 + c div 64) # (128 + c mod 64) # rest"
      using b by (simp add: encode_cp_def)
    have q: "2 \<le> c div 64" "c div 64 < 32" using b by auto
    have v: "c div 64 * 64 + c mod 64 = c" by simp
    show ?thesis unfolding e using decode_2[OF q, of "c mod 64" rest] v by simp
  next
    case c
    have e: "encode_cp c @ rest =
        (224 + c div 4096) # (128 + c div 64 mod 64) # (128 + c mod 64) # rest"
      using c by (simp add: encode_cp_def)
    have q: "c div 4096 < 16" using c by auto
    have "c div 4096 * 4096 + c mod 4096 = c" by simp
    then have v: "c div 4096 * 4096 + (c div 64 mod 64) * 64 + c mod 64 = c"
      by (simp add: split64)
    have ns: "\<not> (55296 \<le> c \<and> c < 57344)" using assms c by (auto simp add: is_scalar_def)
    have "decode_from ((224 + c div 4096) # (128 + c div 64 mod 64) # (128 + c mod 64) # rest) =
        cons_ok (c div 4096 * 4096 + (c div 64 mod 64) * 64 + c mod 64) (decode_from rest)"
    proof (rule decode_3)
      show "c div 4096 < 16" by (rule q)
      show "2048 \<le> c div 4096 * 4096 + c div 64 mod 64 * 64 + c mod 64"
        unfolding v by (rule c)
      show "\<not> (55296 \<le> c div 4096 * 4096 + c div 64 mod 64 * 64 + c mod 64
          \<and> c div 4096 * 4096 + c div 64 mod 64 * 64 + c mod 64 < 57344)"
        unfolding v by (rule ns)
    qed simp_all
    then show ?thesis unfolding e v .
  next
    case d
    have e: "encode_cp c @ rest =
        (240 + c div 262144) # (128 + c div 4096 mod 64) # (128 + c div 64 mod 64)
          # (128 + c mod 64) # rest"
      using d by (simp add: encode_cp_def)
    have q: "c div 262144 < 5" using d by auto
    have "c div 262144 * 262144 + c mod 262144 = c" by simp
    then have v: "c div 262144 * 262144 + (c div 4096 mod 64) * 4096 + (c div 64 mod 64) * 64
        + c mod 64 = c"
      by (simp add: split64 split4096)
    have "decode_from ((240 + c div 262144) # (128 + c div 4096 mod 64) # (128 + c div 64 mod 64)
          # (128 + c mod 64) # rest) =
        cons_ok (c div 262144 * 262144 + (c div 4096 mod 64) * 4096 + (c div 64 mod 64) * 64
        + c mod 64) (decode_from rest)"
    proof (rule decode_4)
      show "c div 262144 < 5" by (rule q)
      show "65536 \<le> c div 262144 * 262144 + c div 4096 mod 64 * 4096 + c div 64 mod 64 * 64
          + c mod 64" unfolding v by (rule d)
      show "c div 262144 * 262144 + c div 4096 mod 64 * 4096 + c div 64 mod 64 * 64 + c mod 64
          < 1114112" unfolding v by (rule d)
    qed simp_all
    then show ?thesis unfolding e v .
  qed
qed

lemma encode_cp_bytes: "is_scalar c \<Longrightarrow> b \<in> set (encode_cp c) \<Longrightarrow> b < 256"
proof -
  assume s: "is_scalar c" and b: "b \<in> set (encode_cp c)"
  have bound: "c < 1114112" using s by (auto simp add: is_scalar_def)
  have "c div 64 < 32" if "c < 2048" using that by auto
  moreover have "c div 4096 < 16" if "c < 65536" using that by auto
  moreover have "c div 262144 < 5" using bound by auto
  moreover have "c mod 64 < 64" "c div 64 mod 64 < 64" "c div 4096 mod 64 < 64" by simp_all
  ultimately show ?thesis using b
    by (auto simp add: encode_cp_def split: if_splits)
qed

lemma decode_from_encode:
  "list_all is_scalar cs \<Longrightarrow> decode_from (concat (map encode_cp cs)) = Inr cs"
  by (induction cs) (simp_all add: decode_encode_cp cons_ok_def)

lemma unat_utf8_encode:
  assumes "list_all is_scalar cs"
  shows "map unat (utf8_encode cs) = concat (map encode_cp cs)"
proof -
  have "b < 256" if "b \<in> set (concat (map encode_cp cs))" for b
    using that assms encode_cp_bytes by (auto simp add: list_all_iff)
  then have "unat (of_nat b :: byte) = b" if "b \<in> set (concat (map encode_cp cs))" for b
    using that by (simp add: unat_of_nat)
  then have "map (\<lambda>b. unat (of_nat b :: byte)) (concat (map encode_cp cs)) = concat (map encode_cp cs)"
    by (intro map_idI)
  then show ?thesis by (simp add: utf8_encode_def comp_def)
qed

lemma utf8_decode_encode: "list_all is_scalar cs \<Longrightarrow> utf8_decode (utf8_encode cs) = Inr cs"
  by (simp add: utf8_decode_def unat_utf8_encode decode_from_encode)


lemma cons_ok_Inr: "cons_ok c r = Inr cs \<longleftrightarrow> (\<exists>cs'. r = Inr cs' \<and> cs = c # cs')"
  by (auto simp add: cons_ok_def split: sum.splits)

lemma encode_2:
  "2 \<le> q \<Longrightarrow> q < 32 \<Longrightarrow> r < 64 \<Longrightarrow> encode_cp (q * 64 + r) = [192 + q, 128 + r]"
  by (simp add: encode_cp_def)

lemma encode_3:
  assumes "q < 16" "r1 < 64" "r2 < 64" "2048 \<le> q * 4096 + r1 * 64 + r2"
  shows "encode_cp (q * 4096 + r1 * 64 + r2) = [224 + q, 128 + r1, 128 + r2]"
proof -
  let ?c = "q * 4096 + r1 * 64 + r2"
  have a: "?c div 64 = q * 64 + r1" using assms by simp
  have "?c = (q * 64 + r1) * 64 + r2" by simp
  then have b: "?c mod 64 = r2" using assms(3) by (metis mod_mult_self3 mod_less)
  have c: "?c div 4096 = q"
  proof -
    have "?c = q * 4096 + (r1 * 64 + r2)" by simp
    moreover have "r1 * 64 + r2 < 4096" using assms by simp
    ultimately show ?thesis by simp
  qed
  have d: "(q * 64 + r1) mod 64 = r1" using assms by simp
  have "?c < 65536" using assms by simp
  moreover have "\<not> ?c < 2048" using assms by simp
  moreover have "\<not> ?c < 128" using assms by simp
  ultimately show ?thesis unfolding encode_cp_def by (simp only: a b c d if_False if_True)
qed

lemma encode_4:
  assumes "q < 5" "r1 < 64" "r2 < 64" "r3 < 64" "65536 \<le> q * 262144 + r1 * 4096 + r2 * 64 + r3"
  shows "encode_cp (q * 262144 + r1 * 4096 + r2 * 64 + r3) = [240 + q, 128 + r1, 128 + r2, 128 + r3]"
proof -
  let ?c = "q * 262144 + r1 * 4096 + r2 * 64 + r3"
  have a: "?c div 64 = q * 4096 + r1 * 64 + r2" using assms by simp
  have "?c = (q * 4096 + r1 * 64 + r2) * 64 + r3" by simp
  then have b: "?c mod 64 = r3" using assms(4) by (metis mod_mult_self3 mod_less)
  have c: "?c div 4096 = q * 64 + r1"
  proof -
    have "?c = (q * 64 + r1) * 4096 + (r2 * 64 + r3)" by simp
    moreover have "r2 * 64 + r3 < 4096" using assms by simp
    ultimately show ?thesis by simp
  qed
  have c': "?c div 262144 = q"
  proof -
    have "?c = q * 262144 + (r1 * 4096 + r2 * 64 + r3)" by simp
    moreover have "r1 * 4096 + r2 * 64 + r3 < 262144" using assms by simp
    ultimately show ?thesis by simp
  qed
  have "q * 4096 + r1 * 64 + r2 = (q * 64 + r1) * 64 + r2" by simp
  then have d: "(q * 4096 + r1 * 64 + r2) mod 64 = r2"
    using assms(3) by (metis mod_mult_self3 mod_less)
  have e: "(q * 64 + r1) mod 64 = r1" using assms by simp
  have "\<not> ?c < 65536" using assms by simp
  moreover have "\<not> ?c < 2048" using assms by simp
  moreover have "\<not> ?c < 128" using assms by simp
  ultimately show ?thesis unfolding encode_cp_def by (simp only: a b c c' d e if_False if_True)
qed

lemma decode_from_sound:
  "decode_from ns = Inr cs \<Longrightarrow> list_all is_scalar cs \<and> concat (map encode_cp cs) = ns"
proof (induction ns arbitrary: cs rule: length_induct)
  case (1 ns)
  note IH = "1.IH"[rule_format]
  show ?case
  proof (cases ns)
    case Nil
    with "1.prems" show ?thesis by simp
  next
    case (Cons b bs)
    note ns = Cons
    consider (a) "b < 128" | (b) "194 \<le> b" "b < 224" | (c) "224 \<le> b" "b < 240"
      | (d) "240 \<le> b" "b < 245" | (e) "128 \<le> b" "b < 194" | (f) "245 \<le> b"
      by linarith
    then show ?thesis
    proof cases
      case a
      with "1.prems" ns obtain cs' where r: "decode_from bs = Inr cs'" and cs: "cs = b # cs'"
        by (auto simp add: cons_ok_Inr)
      have "list_all is_scalar cs' \<and> concat (map encode_cp cs') = bs"
        using r ns by (intro IH) simp_all
      moreover have "is_scalar b" "encode_cp b = [b]"
        using a by (simp_all add: is_scalar_def encode_cp_def)
      ultimately show ?thesis using cs ns by simp
    next
      case b
      with "1.prems" ns obtain c1 r cs' where bs: "bs = c1 # r" and c1: "is_cont c1"
        and r: "decode_from r = Inr cs'" and cs: "cs = ((b - 192) * 64 + (c1 - 128)) # cs'"
        by (auto simp add: cons_ok_Inr split: list.splits if_splits)
      have ih: "list_all is_scalar cs' \<and> concat (map encode_cp cs') = r"
        using r ns bs by (intro IH) simp_all
      have q: "2 \<le> b - 192" "b - 192 < 32" "c1 - 128 < 64" using b c1 by (auto simp add: is_cont_def)
      have e: "encode_cp ((b - 192) * 64 + (c1 - 128)) = [192 + (b - 192), 128 + (c1 - 128)]"
        by (rule encode_2[OF q])
      have s: "is_scalar ((b - 192) * 64 + (c1 - 128))" using q by (simp add: is_scalar_def)
      have "192 + (b - 192) = b" "128 + (c1 - 128) = c1" using b c1 by (auto simp add: is_cont_def)
      with e s ih cs ns bs show ?thesis by simp
    next
      case c
      with "1.prems" ns obtain c1 c2 r cs' where bs: "bs = c1 # c2 # r"
        and c1: "is_cont c1" and c2: "is_cont c2"
        and lo: "2048 \<le> (b - 224) * 4096 + (c1 - 128) * 64 + (c2 - 128)"
        and sur: "\<not> (55296 \<le> (b - 224) * 4096 + (c1 - 128) * 64 + (c2 - 128)
               \<and> (b - 224) * 4096 + (c1 - 128) * 64 + (c2 - 128) < 57344)"
        and r: "decode_from r = Inr cs'"
        and cs: "cs = ((b - 224) * 4096 + (c1 - 128) * 64 + (c2 - 128)) # cs'"
        by (auto simp add: cons_ok_Inr Let_def split: list.splits if_splits)
      have ih: "list_all is_scalar cs' \<and> concat (map encode_cp cs') = r"
        using r ns bs by (intro IH) simp_all
      have q: "b - 224 < 16" "c1 - 128 < 64" "c2 - 128 < 64"
        using c c1 c2 by (auto simp add: is_cont_def)
      have e: "encode_cp ((b - 224) * 4096 + (c1 - 128) * 64 + (c2 - 128)) =
          [224 + (b - 224), 128 + (c1 - 128), 128 + (c2 - 128)]"
        by (rule encode_3[OF q lo])
      have "(b - 224) * 4096 + (c1 - 128) * 64 + (c2 - 128) < 65536" using q by simp
      then have s: "is_scalar ((b - 224) * 4096 + (c1 - 128) * 64 + (c2 - 128))"
        using sur by (auto simp add: is_scalar_def)
      have "224 + (b - 224) = b" "128 + (c1 - 128) = c1" "128 + (c2 - 128) = c2"
        using c c1 c2 by (auto simp add: is_cont_def)
      with e s ih cs ns bs show ?thesis by simp
    next
      case d
      with "1.prems" ns obtain c1 c2 c3 r cs' where bs: "bs = c1 # c2 # c3 # r"
        and c1: "is_cont c1" and c2: "is_cont c2" and c3: "is_cont c3"
        and lo: "65536 \<le> (b - 240) * 262144 + (c1 - 128) * 4096 + (c2 - 128) * 64 + (c3 - 128)"
        and hi: "(b - 240) * 262144 + (c1 - 128) * 4096 + (c2 - 128) * 64 + (c3 - 128) < 1114112"
        and r: "decode_from r = Inr cs'"
        and cs: "cs = ((b - 240) * 262144 + (c1 - 128) * 4096 + (c2 - 128) * 64 + (c3 - 128)) # cs'"
        by (auto simp add: cons_ok_Inr Let_def split: list.splits if_splits)
      have ih: "list_all is_scalar cs' \<and> concat (map encode_cp cs') = r"
        using r ns bs by (intro IH) simp_all
      have q: "b - 240 < 5" "c1 - 128 < 64" "c2 - 128 < 64" "c3 - 128 < 64"
        using d c1 c2 c3 by (auto simp add: is_cont_def)
      have e: "encode_cp ((b - 240) * 262144 + (c1 - 128) * 4096 + (c2 - 128) * 64 + (c3 - 128)) =
          [240 + (b - 240), 128 + (c1 - 128), 128 + (c2 - 128), 128 + (c3 - 128)]"
        by (rule encode_4[OF q lo])
      have s: "is_scalar ((b - 240) * 262144 + (c1 - 128) * 4096 + (c2 - 128) * 64 + (c3 - 128))"
        using lo hi by (auto simp add: is_scalar_def)
      have "240 + (b - 240) = b" "128 + (c1 - 128) = c1" "128 + (c2 - 128) = c2"
          "128 + (c3 - 128) = c3"
        using d c1 c2 c3 by (auto simp add: is_cont_def)
      with e s ih cs ns bs show ?thesis by simp
    next
      case e
      with "1.prems" ns show ?thesis by simp
    next
      case f
      with "1.prems" ns show ?thesis by simp
    qed
  qed
qed

lemma utf8_decode_sound:
  assumes "utf8_decode bs = Inr cs"
  shows "list_all is_scalar cs \<and> utf8_encode cs = bs"
proof -
  from assms have "list_all is_scalar cs \<and> concat (map encode_cp cs) = map unat bs"
    by (simp add: utf8_decode_def decode_from_sound)
  then show ?thesis by (simp add: utf8_encode_def comp_def)
qed

lemma utf8_decode_ok_iff: "(\<exists>cs. utf8_decode bs = Inr cs) \<longleftrightarrow> valid_utf8 bs"
  unfolding valid_utf8_def using utf8_decode_sound utf8_decode_encode by metis

section \<open>Properties of the PDF text loops\<close>

lemma pdf_loop_Inr: "pdf_loop (map Inr xs) acc = Inr (acc @ concat (map or_empty xs))"
  by (induction xs arbitrary: acc) simp_all

lemma page_texts_Inr: "page_texts (map Inr xs) = Inr (map or_empty xs)"
  by (induction xs) simp_all

lemma concat_all_empty: "list_all (\<lambda>x. or_empty x = []) xs \<Longrightarrow> concat (map or_empty xs) = []"
  by (induction xs) simp_all

section \<open>Claims about text extraction\<close>

text \<open>
  C9.  Plain-text extraction (\<open>extract_text_from_txt\<close> of \<^verbatim>\<open>app2.py\<close>,
  \<open>extract_txt_text\<close> of \<^verbatim>\<open>appfinal.py\<close>): when the bytes of the document are the UTF-8
  encoding of a sequence \<open>cs\<close> of Unicode scalar values, extraction returns exactly
  \<open>cs\<close>: no code point is added, removed or altered, and no exception is raised.
\<close>

theorem txt_extraction_round_trip:
  "list_all is_scalar cs \<Longrightarrow> file_bytes f = utf8_encode cs \<Longrightarrow>
   app2_extract_text_from_txt f = Inr cs \<and> extract_txt_text f = Inr cs"
  by (simp add: app2_extract_text_from_txt_def extract_txt_text_def utf8_decode_encode)

text \<open>The hypotheses hold for the four code points of \<open>demo_txt\<close>.\<close>

theorem txt_extraction_round_trip_witness:
  "list_all is_scalar [72, 233, 8364, 128512]
   \<and> file_bytes demo_txt = utf8_encode [72, 233, 8364, 128512]
   \<and> app2_extract_text_from_txt demo_txt = Inr [72, 233, 8364, 128512]
   \<and> extract_txt_text demo_txt = Inr [72, 233, 8364, 128512]"
proof -
  have s: "list_all is_scalar [72, 233, 8364, 128512]" by (simp add: is_scalar_def)
  have e: "file_bytes demo_txt = utf8_encode [72, 233, 8364, 128512]"
    by (simp add: demo_txt_def utf8_encode_def encode_cp_def)
  from txt_extraction_round_trip[OF s e] s e show ?thesis by simp
qed

text \<open>
  C5, as amended.  For a PDF document whose pages extract without raising, extraction
  returns the page texts in page order, a page without extractable text (\<open>None\<close> or
  the empty string) contributing the empty string: \<open>extract_text_from_pdf\<close> of
  \<^verbatim>\<open>app2.py\<close> concatenates the page texts directly, \<open>extract_pdf_text\<close> of
  \<^verbatim>\<open>appfinal.py\<close> joins them with a single space.  In \<^verbatim>\<open>app2.py\<close> a document in which
  no page has extractable text yields the empty string.
\<close>

theorem pdf_extraction_pages_in_order:
  "pdf_pages f = Inr (map Inr xs) \<Longrightarrow>
   app2_extract_text_from_pdf f = Inr (concat (map or_empty xs))
   \<and> extract_pdf_text f = Inr (join (pystr '' '') (map or_empty xs))
   \<and> (list_all (\<lambda>x. or_empty x = []) xs \<longrightarrow> app2_extract_text_from_pdf f = Inr [])"
  by (simp add: app2_extract_text_from_pdf_def extract_pdf_text_def pdf_loop_Inr page_texts_Inr
      concat_all_empty)

text \<open>The hypotheses hold for \<open>demo_pdf\<close> and \<open>blank_pdf\<close>.\<close>

theorem pdf_extraction_pages_in_order_witness:
  "pdf_pages demo_pdf = Inr (map Inr [Some (pystr ''ab''), None, Some (pystr ''c'')])
   \<and> app2_extract_text_from_pdf demo_pdf = Inr (pystr ''abc'')
   \<and> extract_pdf_text demo_pdf = Inr (pystr ''ab  c'')
   \<and> pdf_pages blank_pdf = Inr (map Inr [None, Some []])
   \<and> list_all (\<lambda>x. or_empty x = []) [None, Some []]
   \<and> app2_extract_text_from_pdf blank_pdf = Inr []"
proof -
  have a: "pdf_pages demo_pdf = Inr (map Inr [Some (pystr ''ab''), None, Some (pystr ''c'')])"
    by (simp add: demo_pdf_def)
  have b: "pdf_pages blank_pdf = Inr (map Inr [None, Some []])"
    by (simp add: blank_pdf_def)
  have c: "list_all (\<lambda>x. or_empty x = []) [None, Some []]" by (simp add: or_empty_def)
  from pdf_extraction_pages_in_order[OF a] pdf_extraction_pages_in_order[OF b] a b c
  show ?thesis by (simp add: or_empty_def pystr_def)
qed

text \<open>
  C5 as stated fails for \<^verbatim>\<open>appfinal.py\<close>: for the two-page document \<open>blank_pdf\<close>, in
  which no page has extractable text, \<open>extract_pdf_text\<close> returns a single space, not
  the empty string.
\<close>

theorem extract_pdf_text_blank_pages_counterexample:
  "pdf_pages blank_pdf = Inr [Inr None, Inr (Some [])]
   \<and> extract_pdf_text blank_pdf = Inr (pystr '' '')
   \<and> extract_pdf_text blank_pdf \<noteq> Inr []"
  by (simp add: blank_pdf_def extract_pdf_text_def or_empty_def pystr_def)

section \<open>Claims about the calls to the model\<close>

lemma SUPPORTED_hi: "SUPPORTED_LANGUAGES (pystr ''hi'') = Some (pystr ''Hindi'')"
  by (simp add: SUPPORTED_LANGUAGES_def pystr_def)

lemma LANGUAGES_en: "LANGUAGES (pystr ''en'') = Some (pystr ''English'')"
  by (simp add: LANGUAGES_def pystr_def)

text \<open>
  C10.  \<open>get_gemini_response\<close> of \<^verbatim>\<open>app2.py\<close>: when the call succeeds and the response
  text is empty, the function returns the string \<open>No response generated.\<close>, whatever
  \<open>extract_percent\<close> is; the model was called once and the percentage extraction was
  not applied.  The value is an ordinary string: it equals what the function returns
  when the model itself answers with that text.
\<close>

theorem empty_response_sentinel:
  "gemini (app2_full_prompt job_desc resume_text prompt) = Inr [] \<Longrightarrow>
   app2_get_gemini_response gemini job_desc resume_text prompt extract_percent =
     (pystr ''No response generated.'', [Generate (app2_full_prompt job_desc resume_text prompt)])
   \<and> prompts_sent (snd (app2_get_gemini_response gemini job_desc resume_text prompt extract_percent))
       = [app2_full_prompt job_desc resume_text prompt]
   \<and> Extract [] \<notin> set (snd (app2_get_gemini_response gemini job_desc resume_text prompt extract_percent))
   \<and> fst (app2_get_gemini_response gemini job_desc resume_text prompt extract_percent) =
       fst (app2_get_gemini_response backend_sentinel job_desc resume_text prompt False)"
  by (simp add: app2_get_gemini_response_def Let_def backend_sentinel_def pystr_def)

text \<open>The hypothesis holds for the backend that answers every prompt with the empty text.\<close>

theorem empty_response_sentinel_witness:
  "backend_empty (app2_full_prompt demo_job demo_resume demo_instruction) = Inr []
   \<and> app2_get_gemini_response backend_empty demo_job demo_resume demo_instruction True =
     (pystr ''No response generated.'',
      [Generate (app2_full_prompt demo_job demo_resume demo_instruction)])"
  using empty_response_sentinel[of backend_empty demo_job demo_resume demo_instruction True]
  by (simp add: backend_empty_def)

text \<open>
  C6.  \<open>get_gemini_response\<close> of \<^verbatim>\<open>app3.py\<close> and \<open>analyze_with_gemini\<close> of
  \<^verbatim>\<open>appfinal.py\<close>, for a language of the script's dictionary: exactly one prompt is
  sent to the model; it holds, in this order and each after its fixed label, the job
  description, the document text and the task instruction, and after the instruction
  the words \<open>Respond in\<close> and the language's name if and only if the language is not
  \<open>en\<close>.
\<close>

theorem prompt_order_and_language_suffix:
  "(SUPPORTED_LANGUAGES language = Some name \<longrightarrow>
      prompts_sent (snd (app3_get_gemini_response gemini job_desc resume_text prompt extract_percent language))
      = [nl @ pystr ''    Job Description: '' @ job_desc @ nl
         @ pystr ''    Resume: '' @ resume_text @ nl
         @ pystr ''    Task: '' @ prompt @ nl
         @ pystr ''    ''
         @ (if language = pystr ''en'' then [] else pystr ''Respond in '' @ name)
         @ nl @ pystr ''    ''])
   \<and> (LANGUAGES language = Some name \<longrightarrow>
      prompts_sent (snd (analyze_with_gemini gemini job_desc resume_text prompt language))
      = [nl @ pystr ''    Job Description: '' @ job_desc @ nl
         @ pystr ''    Resume: '' @ resume_text @ nl
         @ pystr ''    Task: '' @ prompt @ pystr '' ''
         @ (if language = pystr ''en'' then [] else pystr ''Respond in '' @ name @ pystr ''.'')
         @ nl @ pystr ''    ''])"
  by (simp add: app3_get_gemini_response_def analyze_with_gemini_def app3_respond_in_def
      lang_instruction_def app3_prompt_def appfinal_prompt_def Let_def split: sum.splits)

text \<open>The hypotheses hold for Hindi in \<^verbatim>\<open>app3.py\<close> and for English in \<^verbatim>\<open>appfinal.py\<close>.\<close>

theorem prompt_order_and_language_suffix_witness:
  "SUPPORTED_LANGUAGES (pystr ''hi'') = Some (pystr ''Hindi'')
   \<and> prompts_sent (snd (app3_get_gemini_response backend_150 demo_job demo_resume demo_instruction
        True (pystr ''hi'')))
      = [nl @ pystr ''    Job Description: Need Python and SQL'' @ nl
         @ pystr ''    Resume: Skilled in Python'' @ nl
         @ pystr ''    Task: return match percentage'' @ nl
         @ pystr ''    Respond in Hindi'' @ nl @ pystr ''    '']
   \<and> LANGUAGES (pystr ''en'') = Some (pystr ''English'')
   \<and> prompts_sent (snd (analyze_with_gemini backend_150 demo_job demo_resume demo_instruction
        (pystr ''en'')))
      = [nl @ pystr ''    Job Description: Need Python and SQL'' @ nl
         @ pystr ''    Resume: Skilled in Python'' @ nl
         @ pystr ''    Task: return match percentage '' @ nl @ pystr ''    '']"
  using prompt_order_and_language_suffix[of "pystr ''hi''" "pystr ''Hindi''" backend_150 demo_job
      demo_resume demo_instruction True]
    prompt_order_and_language_suffix[of "pystr ''en''" "pystr ''English''" backend_150 demo_job
      demo_resume demo_instruction True]
    SUPPORTED_hi LANGUAGES_en
  by (simp add: demo_job_def demo_resume_def demo_instruction_def pystr_def)

text \<open>
  C3 does not hold of the code.  When the call to the model fails,
  \<open>get_gemini_response\<close> of \<^verbatim>\<open>app2.py\<close> catches the exception and returns a message,
  but \<open>get_gemini_response\<close> of \<^verbatim>\<open>app3.py\<close> and \<open>analyze_with_gemini\<close> of
  \<^verbatim>\<open>appfinal.py\<close> have no handler: the exception leaves the function.  In all three
  the model is called once, with no retry.
\<close>

theorem backend_error_not_caught:
  "app2_get_gemini_response failing_backend demo_job demo_resume demo_instruction False
     = (pystr ''Error: 503 Service Unavailable'',
        [Generate (app2_full_prompt demo_job demo_resume demo_instruction)])
   \<and> app3_get_gemini_response failing_backend demo_job demo_resume demo_instruction False (pystr ''en'')
     = (Inl (BackendError (pystr ''503 Service Unavailable'')),
        [Generate (app3_prompt demo_job demo_resume demo_instruction [])])
   \<and> analyze_with_gemini failing_backend demo_job demo_resume demo_instruction (pystr ''en'')
     = (Inl (BackendError (pystr ''503 Service Unavailable'')),
        [Generate (appfinal_prompt demo_job demo_resume demo_instruction [])])"
  by (simp add: app2_get_gemini_response_def app3_get_gemini_response_def analyze_with_gemini_def
      failing_backend_def app3_respond_in_def lang_instruction_def Let_def pystr_def)

section \<open>Claims about the multi-provider page\<close>

lemma select_response_unknown:
  "ai_choice \<notin> providers \<Longrightarrow>
   select_response B ai_choice input_text pdf_content prompt = (Inr invalid_selection, [])"
  by (simp add: select_response_def providers_def)

text \<open>
  C2.  \<open>generate_ai_response\<close> of \<^verbatim>\<open>main2.py\<close>, for a selection that is none of the
  five names: the selection chain yields the message \<open>Invalid AI Selection\<close> without
  any outbound call; the whole function makes no outbound call, whatever the widgets
  hold; and when the chain is reached (the button was clicked, a file is uploaded and
  parses, the prompt key exists) the page shows that message.
\<close>

theorem unknown_provider_no_call:
  "w_ai_choice W \<notin> providers \<Longrightarrow>
   select_response B (w_ai_choice W) input_text pdf_content prompt = (Inr invalid_selection, [])
   \<and> snd (generate_ai_response B prompts W title prompt_key) = []
   \<and> (w_button W title \<and> w_uploaded_file W = Some f
        \<and> (\<not> contains (pystr ''job description'') (lower title) \<or> w_input_text W \<noteq> [])
        \<and> input_pdf_text f = Inr pdf \<and> prompts prompt_key = Some p
      \<longrightarrow> generate_ai_response B prompts W title prompt_key =
            (Inr [Subheader (w_ai_choice W @ pystr '' Response for '' @ title @ pystr '':''),
                  Write invalid_selection], []))"
  by (auto simp add: generate_ai_response_def select_response_unknown split: option.splits sum.splits)

text \<open>The hypotheses hold on the example page, where the selection is \<open>unknown\<close>.\<close>

theorem unknown_provider_no_call_witness:
  "w_ai_choice demo_widgets \<notin> providers
   \<and> generate_ai_response demo_backends demo_prompts demo_widgets (pystr ''Summarize my Resume'')
        (pystr ''resume_summary'') =
       (Inr [Subheader (pystr ''unknown Response for Summarize my Resume:''),
             Write invalid_selection], [])"
proof -
  have a: "w_ai_choice demo_widgets \<notin> providers"
    by (simp add: demo_widgets_def providers_def pystr_def)
  have b: "w_button demo_widgets (pystr ''Summarize my Resume'')"
    "w_uploaded_file demo_widgets = Some \<lparr>file_name = pystr ''cv.pdf'', file_bytes = [],
        pdf_pages = Inr [Inr (Some (pystr ''Skilled in Python''))]\<rparr>"
    "\<not> contains (pystr ''job description'') (lower (pystr ''Summarize my Resume''))"
    "input_pdf_text \<lparr>file_name = pystr ''cv.pdf'', file_bytes = [],
        pdf_pages = Inr [Inr (Some (pystr ''Skilled in Python''))]\<rparr>
       = Inr (pystr ''Skilled in Python'')"
    "demo_prompts (pystr ''resume_summary'') = Some (pystr ''Provide a detailed summary'')"
    by (simp_all add: demo_widgets_def pystr_def lower_def input_pdf_text_def or_empty_def
        demo_prompts_def)
  from unknown_provider_no_call[OF a, of demo_backends "[]" "[]" "[]" demo_prompts
      "pystr ''Summarize my Resume''" "pystr ''resume_summary''"] a b
  show ?thesis by (simp add: demo_widgets_def pystr_def)
qed

section \<open>Claims about the extracted percentage\<close>

lemma percent_at_digits:
  assumes "percent_at t i k"
  shows "take k (drop i t) \<noteq> [] \<and> list_all is_decimal (take k (drop i t))"
proof -
  from assms have k: "1 \<le> k" "i + k < length t" and d: "\<And>j. j < k \<Longrightarrow> is_decimal (t ! (i + j))"
    by (simp_all add: percent_at_def)
  have len: "length (take k (drop i t)) = k" using k by simp
  have "is_decimal (take k (drop i t) ! j)" if "j < k" for j
    using that k d by simp
  then have "list_all is_decimal (take k (drop i t))"
    using len by (simp add: list_all_length)
  moreover have "take k (drop i t) \<noteq> []" using len k by auto
  ultimately show ?thesis by simp
qed

lemma app3_extract_percentage_eq: "app3_extract_percentage t = app2_extract_percentage t"
  by (simp add: app3_extract_percentage_def app2_extract_percentage_def split: option.splits)

lemma extracted_shape:
  "app2_extract_percentage t = pystr ''N/A''
   \<or> (app2_extract_percentage t \<noteq> [] \<and> list_all is_decimal (app2_extract_percentage t))"
proof (cases "re_search t")
  case None
  then show ?thesis by (simp add: app2_extract_percentage_def)
next
  case (Some g)
  from re_search_Some[OF Some] obtain i k where "percent_at t i k" "g = take k (drop i t)"
    by blast
  with percent_at_digits[of t i k] Some show ?thesis
    by (simp add: app2_extract_percentage_def)
qed

lemma NA_not_digits: "\<not> list_all is_decimal (pystr ''N/A'')"
  by (simp add: pystr_def is_decimal_ascii)

lemma app3_150: "app3_extract_percentage (pystr ''150%'') = pystr ''150''"
  by (simp add: app3_extract_percentage_def match_here_def pystr_def is_decimal_ascii percent_def)

lemma decimal_value_ascii: "48 \<le> c \<Longrightarrow> c \<le> 57 \<Longrightarrow> decimal_value c = Some (c - 48)"
  by (simp add: decimal_value_def decimal_zeros_def)

lemma py_int_150: "py_int 4300 (pystr ''150'') = Inr 150"
  by (simp add: py_int_def pystr_def is_decimal_ascii digits_value_def digit_of_def
      decimal_value_ascii)

lemma py_int_NA: "py_int max_digits (pystr ''N/A'') = Inl ValueError"
  using NA_not_digits by (simp add: py_int_def)

lemma py_int_digits:
  "s \<noteq> [] \<Longrightarrow> list_all is_decimal s \<Longrightarrow>
   py_int max_digits s =
     (if 0 < max_digits \<and> max_digits < length s then Inl ValueError
      else Inr (int (digits_value s)))"
  by (simp add: py_int_def)

text \<open>
  C7, as amended.  The value the percentage extraction returns (\<open>extract_percentage\<close> of
  \<^verbatim>\<open>app3.py\<close> and of \<^verbatim>\<open>app2.py\<close>, which agree) is present exactly when the text
  contains one or more decimal digits immediately followed by \<open>%\<close>; it is then a
  non-empty run of decimal digits, the numeral of a non-negative integer that need not
  lie between 0 and 100.  \<open>int\<close> returns that integer, for every setting of the
  interpreter's digit limit, unless the limit is set and the run is longer than it:
  then \<open>int\<close> raises \<open>ValueError\<close>.  When the text has no such digits the value is the
  marker \<open>N/A\<close>, which is not a number: \<open>int\<close> raises \<open>ValueError\<close> on it.
\<close>

theorem extracted_percentage_is_digit_run:
  "(if \<exists>i k. percent_at t i k
    then app3_extract_percentage t \<noteq> pystr ''N/A''
         \<and> app3_extract_percentage t \<noteq> []
         \<and> list_all is_decimal (app3_extract_percentage t)
         \<and> py_int max_digits (app3_extract_percentage t)
             = (if 0 < max_digits \<and> max_digits < length (app3_extract_percentage t)
                then Inl ValueError
                else Inr (int (digits_value (app3_extract_percentage t))))
         \<and> (0::int) \<le> int (digits_value (app3_extract_percentage t))
    else app3_extract_percentage t = pystr ''N/A''
         \<and> py_int max_digits (app3_extract_percentage t) = Inl ValueError)
   \<and> app2_extract_percentage t = app3_extract_percentage t"
proof (cases "re_search t")
  case None
  then have "\<not> (\<exists>i k. percent_at t i k)" by (simp add: re_search_None_iff)
  moreover have "app3_extract_percentage t = pystr ''N/A''"
    using None by (simp add: app3_extract_percentage_def)
  ultimately show ?thesis by (simp add: app3_extract_percentage_eq py_int_NA)
next
  case (Some g)
  from re_search_Some[OF Some] obtain i k where ik: "percent_at t i k" "g = take k (drop i t)"
    by blast
  have e: "app3_extract_percentage t = g" using Some by (simp add: app3_extract_percentage_def)
  have d: "g \<noteq> []" "list_all is_decimal g"
    using percent_at_digits[OF ik(1)] ik(2) by simp_all
  then have "g \<noteq> pystr ''N/A''" using NA_not_digits by auto
  moreover have "\<exists>i k. percent_at t i k" using ik(1) by blast
  ultimately show ?thesis
    using e d py_int_digits[OF d, of max_digits] by (simp add: app3_extract_percentage_eq)
qed

lemma value_62: "digits_value (pystr ''62'') = 62"
  by (simp add: pystr_def digits_value_def digit_of_def decimal_value_ascii)

text \<open>
  The text \<open>The match is 62%\<close> has such an occurrence; the value is \<open>62\<close> under the
  default limit of 4300 digits and with no limit, and with a limit of one digit \<open>int\<close>
  raises.
\<close>

theorem extracted_percentage_is_digit_run_witness:
  "percent_at (pystr ''The match is 62%'') 13 2
   \<and> app3_extract_percentage (pystr ''The match is 62%'') = pystr ''62''
   \<and> py_int 4300 (pystr ''62'') = Inr 62
   \<and> py_int 0 (pystr ''62'') = Inr 62
   \<and> py_int 1 (pystr ''62'') = Inl ValueError"
proof -
  have p: "percent_at (pystr ''The match is 62%'') 13 2"
    by (simp add: percent_at_def pystr_def is_decimal_ascii percent_def numeral_2_eq_2
        All_less_Suc)
  then have ex: "\<exists>i k. percent_at (pystr ''The match is 62%'') i k" by blast
  have e: "app3_extract_percentage (pystr ''The match is 62%'') = pystr ''62''"
    by (simp add: app3_extract_percentage_def match_here_def pystr_def is_decimal_ascii
        percent_def)
  have l: "length (pystr ''62'') = 2" by (simp add: pystr_def)
  from extracted_percentage_is_digit_run[of "pystr ''The match is 62%''" 4300]
    extracted_percentage_is_digit_run[of "pystr ''The match is 62%''" 0]
    extracted_percentage_is_digit_run[of "pystr ''The match is 62%''" 1] ex
  show ?thesis using p e l by (simp add: value_62)
qed

text \<open>
  C7 as stated fails: for the text \<open>150%\<close> the extracted percentage is present and is
  150, outside the range from 0 to 100.
\<close>

theorem extracted_percentage_above_100_counterexample:
  "app3_extract_percentage (pystr ''150%'') = pystr ''150''
   \<and> app2_extract_percentage (pystr ''150%'') = pystr ''150''
   \<and> py_int 4300 (pystr ''150'') = Inr 150
   \<and> \<not> (150 \<le> (100::int))"
  using app3_150 py_int_150 by (simp add: app3_extract_percentage_eq[symmetric])

section \<open>Properties of the sessions\<close>

lemma py_int_Inr:
  "py_int max_digits s = Inr v \<Longrightarrow>
   s \<noteq> [] \<and> list_all is_decimal s \<and> v = int (digits_value s)"
  by (auto simp add: py_int_def split: if_splits)

lemma py_float_Inr:
  "py_float s = Inr v \<Longrightarrow>
   s \<noteq> [] \<and> list_all is_decimal s \<and> v = round_double (digits_value s)"
  by (auto simp add: py_float_def split: if_splits)

lemma extract_match_percentage_eq: "extract_match_percentage t = app2_extract_percentage t"
  by (simp add: extract_match_percentage_def app2_extract_percentage_def)

lemma digits_imp_occurrence:
  assumes "list_all is_decimal (app2_extract_percentage t)"
  shows "\<exists>i k. percent_at t i k"
proof (cases "re_search t")
  case None
  then have "app2_extract_percentage t = pystr ''N/A''"
    by (simp add: app2_extract_percentage_def)
  with assms NA_not_digits show ?thesis by simp
next
  case (Some g)
  from re_search_Some[OF Some] show ?thesis by blast
qed

lemma occurrence_imp_digits:
  assumes "percent_at t i k"
  shows "app2_extract_percentage t \<noteq> [] \<and> list_all is_decimal (app2_extract_percentage t)"
proof -
  from assms have "re_search t \<noteq> None" using re_search_None_iff by blast
  then obtain g where g: "re_search t = Some g" by auto
  from re_search_Some[OF g] obtain i' k' where "percent_at t i' k'" "g = take k' (drop i' t)"
    by blast
  with percent_at_digits[of t i' k'] g show ?thesis by (simp add: app2_extract_percentage_def)
qed

lemma bitlen_le: "n < 2 ^ k \<Longrightarrow> bitlen n \<le> k"
proof (induction k arbitrary: n)
  case 0
  then have "n = 0" by simp
  then show ?case by (simp add: bitlen.simps)
next
  case (Suc k)
  show ?case
  proof (cases "n = 0")
    case True
    then show ?thesis by (simp add: bitlen.simps)
  next
    case False
    from Suc.prems have "n div 2 < 2 ^ k" by auto
    then have "bitlen (n div 2) \<le> k" by (rule Suc.IH)
    moreover have "bitlen n = Suc (bitlen (n div 2))" using False by (subst bitlen.simps) simp
    ultimately show ?thesis by simp
  qed
qed

lemma round_double_exact:
  assumes "n < 2 ^ 53"
  shows "round_double n = Finite (real n)"
proof -
  have e: "bitlen n - 53 = 0" using bitlen_le[OF assms] by simp
  have "(2::nat) ^ 53 \<le> 2 ^ 1024" by (rule power_increasing) simp_all
  with assms have "\<not> (2::nat) ^ 1024 \<le> n" by linarith
  then show ?thesis unfolding round_double_def e Let_def by simp
qed

lemma round_double_nonneg: "pf_nonneg (round_double n)"
  by (simp add: round_double_def Let_def)

lemma app3_response_Inr:
  assumes "fst (app3_get_gemini_response g jd res prompt True lang) = Inr m"
  shows "\<exists>ri resp. app3_respond_in lang = Inr ri \<and> g (app3_prompt jd res prompt ri) = Inr resp
           \<and> m = app3_extract_percentage resp"
  using assms
  by (auto simp add: app3_get_gemini_response_def Let_def split: sum.splits)

lemma app3_response_ok:
  assumes "app3_respond_in lang = Inr ri" "g (app3_prompt jd res prompt ri) = Inr resp"
  shows "fst (app3_get_gemini_response g jd res prompt True lang)
           = Inr (app3_extract_percentage resp)"
  using assms by (simp add: app3_get_gemini_response_def Let_def)

lemma app3_home_new:
  "\<exists>new. historical_scores (fst (app3_home max_digits g P S)) = historical_scores S @ new
     \<and> (new = [] \<or> (\<exists>p resp. g p = Inr resp \<and> (\<exists>i k. percent_at resp i k)
                       \<and> new = [int (digits_value (app3_extract_percentage resp))]))"
proof (cases "historical_scores (fst (app3_home max_digits g P S)) = historical_scores S")
  case True
  then have "historical_scores (fst (app3_home max_digits g P S)) = historical_scores S @ []
      \<and> ([] = ([]::int list) \<or> (\<exists>p resp. g p = Inr resp \<and> (\<exists>i k. percent_at resp i k)
                       \<and> [] = [int (digits_value (app3_extract_percentage resp))]))" by simp
  then show ?thesis by blast
next
  case False
  then obtain prompt m v where
    r: "fst (app3_get_gemini_response g (a3_job_desc S) (or_empty (a3_resume_text S)) prompt True
          (a3_language S)) = Inr m"
    and v: "py_int max_digits m = Inr v"
    and h: "historical_scores (fst (app3_home max_digits g P S)) = historical_scores S @ [v]"
    by (auto simp add: app3_home_def split: if_splits sum.splits)
  from app3_response_Inr[OF r] obtain ri resp where
    t: "g (app3_prompt (a3_job_desc S) (or_empty (a3_resume_text S)) prompt ri) = Inr resp"
    and m: "m = app3_extract_percentage resp" by blast
  from py_int_Inr[OF v] have d: "list_all is_decimal m" and vv: "v = int (digits_value m)"
    by simp_all
  from d m have "\<exists>i k. percent_at resp i k"
    using digits_imp_occurrence[of resp] by (simp add: app3_extract_percentage_eq)
  with t h vv m have
    "historical_scores (fst (app3_home max_digits g P S)) = historical_scores S @ [v]
     \<and> (\<exists>p resp. g p = Inr resp \<and> (\<exists>i k. percent_at resp i k)
           \<and> [v] = [int (digits_value (app3_extract_percentage resp))])" by blast
  then show ?thesis by blast
qed

lemma app3_home_appends:
  assumes "truthy (a3_resume_text S)" "a3_job_desc S \<noteq> []"
    and "get_prompt P (pystr ''percentage_match'') (a3_language S) = Inr prompt"
    and "app3_respond_in (a3_language S) = Inr ri"
    and "g (app3_prompt (a3_job_desc S) (or_empty (a3_resume_text S)) prompt ri) = Inr resp"
    and "percent_at resp i k"
    and "\<not> (0 < max_digits \<and> max_digits < length (app3_extract_percentage resp))"
  shows "historical_scores (fst (app3_home max_digits g P S))
           = historical_scores S @ [int (digits_value (app3_extract_percentage resp))]"
proof -
  have d: "app3_extract_percentage resp \<noteq> []"
    "list_all is_decimal (app3_extract_percentage resp)"
    using occurrence_imp_digits[OF assms(6)] by (simp_all add: app3_extract_percentage_eq)
  have "py_int max_digits (app3_extract_percentage resp)
      = Inr (int (digits_value (app3_extract_percentage resp)))"
    using py_int_digits[OF d, of max_digits] assms(7) by simp
  then show ?thesis
    using assms(1-3) app3_response_ok[of "a3_language S" ri g "a3_job_desc S"
        "or_empty (a3_resume_text S)" prompt resp] assms(4,5)
    by (simp add: app3_home_def)
qed

lemma app3_run_new:
  "\<exists>new. historical_scores (fst (app3_run max_digits g P S language page))
       = historical_scores S @ new
     \<and> (new = [] \<or> (\<exists>p resp. g p = Inr resp \<and> (\<exists>i k. percent_at resp i k)
                       \<and> new = [int (digits_value (app3_extract_percentage resp))]))"
proof (cases page)
  case Home
  then show ?thesis
    using app3_home_new[of max_digits g P "S\<lparr>a3_language := language\<rparr>"]
    by (simp add: app3_run_def Let_def)
next
  case (Upload_Resume u)
  then have "historical_scores (fst (app3_run max_digits g P S language page))
      = historical_scores S @ []"
    by (simp add: app3_run_def Let_def split: option.splits)
  then show ?thesis by blast
next
  case (Job_Description j)
  then have "historical_scores (fst (app3_run max_digits g P S language page))
      = historical_scores S @ []"
    by (simp add: app3_run_def Let_def)
  then show ?thesis by blast
next
  case Analyze
  then have "historical_scores (fst (app3_run max_digits g P S language page))
      = historical_scores S @ []"
    by (simp add: app3_run_def Let_def app3_analyze_def split: sum.splits)
  then show ?thesis by blast
qed

lemma app3_run_appends:
  assumes "truthy (a3_resume_text S)" "a3_job_desc S \<noteq> []"
    and "get_prompt P (pystr ''percentage_match'') language = Inr prompt"
    and "app3_respond_in language = Inr ri"
    and "g (app3_prompt (a3_job_desc S) (or_empty (a3_resume_text S)) prompt ri) = Inr resp"
    and "percent_at resp i k"
    and "\<not> (0 < max_digits \<and> max_digits < length (app3_extract_percentage resp))"
  shows "historical_scores (fst (app3_run max_digits g P S language Home))
           = historical_scores S @ [int (digits_value (app3_extract_percentage resp))]"
  using app3_home_appends[of "S\<lparr>a3_language := language\<rparr>" P prompt ri g resp i k max_digits]
    assms
  by (simp add: app3_run_def Let_def)

lemma app3_reachable_history:
  "app3_reachable S \<Longrightarrow>
   10 \<le> length (historical_scores S) \<and> (\<forall>x \<in> set (historical_scores S). 0 \<le> x)"
proof (induction rule: app3_reachable.induct)
  case (start rnd)
  then show ?case by (auto simp add: randint_draw_def app3_init_def)
next
  case (run S max_digits gemini prompts language page)
  from app3_run_new[of max_digits gemini prompts S language page] obtain new where
    n: "historical_scores (fst (app3_run max_digits gemini prompts S language page))
       = historical_scores S @ new"
    and "new = [] \<or> (\<exists>v. new = [int v])" by blast
  then have "\<forall>x \<in> set new. 0 \<le> x" by auto
  with n run.IH show ?case by auto
qed

lemma appfinal_response_Inr:
  assumes "fst (analyze_with_gemini g jd res prompt lang) = Inr resp"
  shows "\<exists>ins. lang_instruction lang = Inr ins
           \<and> g (appfinal_prompt jd res prompt ins) = Inr resp"
  using assms by (auto simp add: analyze_with_gemini_def Let_def split: sum.splits)

lemma appfinal_response_ok:
  assumes "lang_instruction lang = Inr ins" "g (appfinal_prompt jd res prompt ins) = Inr resp"
  shows "fst (analyze_with_gemini g jd res prompt lang) = Inr resp"
  using assms by (simp add: analyze_with_gemini_def Let_def)

lemma appfinal_analyze_new:
  "\<exists>new. scores (fst (appfinal_analyze g S)) = scores S @ new
     \<and> (new = [] \<or> (\<exists>p resp. g p = Inr resp \<and> (\<exists>i k. percent_at resp i k)
                       \<and> new = [round_double (digits_value (extract_match_percentage resp))]))"
proof (cases "scores (fst (appfinal_analyze g S)) = scores S")
  case True
  then have "scores (fst (appfinal_analyze g S)) = scores S @ []
      \<and> ([] = ([]::pyfloat list) \<or> (\<exists>p resp. g p = Inr resp \<and> (\<exists>i k. percent_at resp i k)
             \<and> [] = [round_double (digits_value (extract_match_percentage resp))]))" by simp
  then show ?thesis by blast
next
  case False
  then obtain resp v where
    r: "fst (analyze_with_gemini g (af_job_desc S) (af_resume S) match_tab (af_language S))
          = Inr resp"
    and v: "py_float (extract_match_percentage resp) = Inr v"
    and h: "scores (fst (appfinal_analyze g S)) = scores S @ [v]"
    by (auto simp add: appfinal_analyze_def Let_def split: if_splits sum.splits option.splits)
  from appfinal_response_Inr[OF r] obtain ins where
    t: "g (appfinal_prompt (af_job_desc S) (af_resume S) match_tab ins) = Inr resp" by blast
  from py_float_Inr[OF v] have d: "list_all is_decimal (extract_match_percentage resp)"
    and vv: "v = round_double (digits_value (extract_match_percentage resp))" by simp_all
  from d have "\<exists>i k. percent_at resp i k"
    using digits_imp_occurrence[of resp] by (simp add: extract_match_percentage_eq)
  with t h vv have
    "scores (fst (appfinal_analyze g S)) = scores S @ [v]
     \<and> (\<exists>p resp. g p = Inr resp \<and> (\<exists>i k. percent_at resp i k)
           \<and> [v] = [round_double (digits_value (extract_match_percentage resp))])" by blast
  then show ?thesis by blast
qed

lemma appfinal_analyze_appends:
  assumes "af_resume S \<noteq> []" "af_job_desc S \<noteq> []"
    and "lang_instruction (af_language S) = Inr ins"
    and "g (appfinal_prompt (af_job_desc S) (af_resume S) summary_tab ins) = Inr summary"
    and "g (appfinal_prompt (af_job_desc S) (af_resume S) match_tab ins) = Inr resp"
    and "percent_at resp i k"
  shows "scores (fst (appfinal_analyze g S))
           = scores S @ [round_double (digits_value (extract_match_percentage resp))]"
proof -
  have d: "extract_match_percentage resp \<noteq> []"
    "list_all is_decimal (extract_match_percentage resp)"
    using occurrence_imp_digits[OF assms(6)] by (simp_all add: extract_match_percentage_eq)
  then have f: "py_float (extract_match_percentage resp)
      = Inr (round_double (digits_value (extract_match_percentage resp)))"
    by (simp add: py_float_def)
  show ?thesis
    using assms(1,2)
      appfinal_response_ok[of "af_language S" ins g "af_job_desc S" "af_resume S" summary_tab
        summary]
      appfinal_response_ok[of "af_language S" ins g "af_job_desc S" "af_resume S" match_tab resp]
      assms(3-5) f
    by (simp add: appfinal_analyze_def Let_def split: sum.splits option.splits)
qed

lemma appfinal_run_new:
  "\<exists>new. scores (fst (appfinal_run g S language page)) = scores S @ new
     \<and> (new = [] \<or> (\<exists>p resp. g p = Inr resp \<and> (\<exists>i k. percent_at resp i k)
                       \<and> new = [round_double (digits_value (extract_match_percentage resp))]))"
proof (cases page)
  case AF_Home
  then have "scores (fst (appfinal_run g S language page)) = scores S @ []"
    by (simp add: appfinal_run_def Let_def)
  then show ?thesis by blast
next
  case (AF_Upload u)
  then have "scores (fst (appfinal_run g S language page)) = scores S @ []"
    by (simp add: appfinal_run_def Let_def split: option.splits sum.splits)
  then show ?thesis by blast
next
  case (AF_JD j)
  then have "scores (fst (appfinal_run g S language page)) = scores S @ []"
    by (simp add: appfinal_run_def Let_def)
  then show ?thesis by blast
next
  case AF_Analyze
  then show ?thesis
    using appfinal_analyze_new[of g "S\<lparr>af_language := language\<rparr>"]
    by (simp add: appfinal_run_def Let_def)
qed

lemma appfinal_run_appends:
  assumes "af_resume S \<noteq> []" "af_job_desc S \<noteq> []"
    and "lang_instruction language = Inr ins"
    and "g (appfinal_prompt (af_job_desc S) (af_resume S) summary_tab ins) = Inr summary"
    and "g (appfinal_prompt (af_job_desc S) (af_resume S) match_tab ins) = Inr resp"
    and "percent_at resp i k"
  shows "scores (fst (appfinal_run g S language AF_Analyze))
           = scores S @ [round_double (digits_value (extract_match_percentage resp))]"
  using appfinal_analyze_appends[of "S\<lparr>af_language := language\<rparr>" ins g summary resp i k]
    assms
  by (simp add: appfinal_run_def Let_def)

lemma appfinal_reachable_scores:
  "appfinal_reachable S \<Longrightarrow> list_all pf_nonneg (scores S)"
proof (induction rule: appfinal_reachable.induct)
  case af_start
  then show ?case by (simp add: appfinal_init_def)
next
  case (af_run S gemini language page)
  from appfinal_run_new[of gemini S language page] obtain new where
    n: "scores (fst (appfinal_run gemini S language page)) = scores S @ new"
    and "new = [] \<or> (\<exists>v. new = [round_double v])" by blast
  then have "list_all pf_nonneg new" using round_double_nonneg by auto
  with n af_run.IH show ?case by simp
qed

lemma demo_draw_ok: "randint_draw demo_draw"
  by (simp add: randint_draw_def demo_draw_def)

lemma demo_prompt: "get_prompt demo_table (pystr ''percentage_match'') (pystr ''en'')
    = Inr (pystr ''return match percentage'')"
  by (simp add: get_prompt_def demo_table_def pystr_def)

lemma demo_resume_truthy: "truthy (Some demo_resume)" "demo_job \<noteq> []"
  by (simp_all add: truthy_def demo_resume_def demo_job_def pystr_def)

lemma demo_session_eq:
  "demo_session = \<lparr>a3_resume_text = Some demo_resume, a3_job_desc = demo_job,
      a3_language = pystr ''en'', historical_scores = demo_draw @ [150]\<rparr>"
proof -
  have en: "app3_respond_in (pystr ''en'') = Inr []" by (simp add: app3_respond_in_def)
  have call: "fst (app3_get_gemini_response backend_150 demo_job demo_resume
      (pystr ''return match percentage'') True (pystr ''en'')) = Inr (pystr ''150'')"
    by (simp add: app3_get_gemini_response_def en backend_150_def Let_def app3_150)
  have home: "app3_home 4300 backend_150 demo_table
      \<lparr>a3_resume_text = Some demo_resume, a3_job_desc = demo_job,
       a3_language = pystr ''en'', historical_scores = demo_draw\<rparr>
     = (\<lparr>a3_resume_text = Some demo_resume, a3_job_desc = demo_job,
       a3_language = pystr ''en'', historical_scores = demo_draw @ [150]\<rparr>,
       Some (NameError (pystr ''px'')))"
    using demo_resume_truthy
    by (simp add: app3_home_def demo_prompt or_empty_def call py_int_150)
  show ?thesis
    using demo_resume_truthy(2)
    by (simp add: demo_session_def app3_run_def app3_init_def Let_def home)
qed

lemma demo_session_reachable: "app3_reachable demo_session"
  unfolding demo_session_def Let_def
  by (intro app3_reachable.run app3_reachable.start demo_draw_ok)

section \<open>Claims about the score history\<close>

text \<open>
  C8, as amended.  The score history is an ordered sequence of non-negative numbers.
  In \<^verbatim>\<open>app3.py\<close> it starts as the ten random integers from 50 to 94 and every run of
  the script leaves it as it was or appends one integer, the value of an extracted
  digit run, which is at least 0 and has no upper bound.  In \<^verbatim>\<open>appfinal.py\<close> it starts
  empty and every run leaves it as it was or appends one number, again the value of
  an extracted digit run.  No run modifies, removes or clears an element.
\<close>

lemma percent_at_150: "percent_at (pystr ''150%'') 0 3"
  by (simp add: percent_at_def pystr_def is_decimal_ascii percent_def numeral_3_eq_3
      All_less_Suc)

lemma value_150: "digits_value (pystr ''150'') = 150"
  by (simp add: pystr_def digits_value_def digit_of_def decimal_value_ascii)

lemma extract_match_150: "extract_match_percentage (pystr ''150%'') = pystr ''150''"
  using app3_150 by (simp add: extract_match_percentage_eq app3_extract_percentage_eq)

lemma demo_final_session_unfold:
  "demo_final_session =
     fst (appfinal_run backend_150
       \<lparr>af_resume = demo_resume, af_job_desc = demo_job, af_language = pystr ''en'',
        scores = []\<rparr> (pystr ''en'') AF_Analyze)"
  by (simp add: demo_final_session_def appfinal_run_def appfinal_init_def Let_def)

lemma demo_final_session_reachable: "appfinal_reachable demo_final_session"
  unfolding demo_final_session_def Let_def
  by (intro appfinal_reachable.af_run appfinal_reachable.af_start)

section \<open>Claims about the score history\<close>

text \<open>
  C8, as amended.  The score history is an ordered sequence of non-negative numbers
  that need not lie between 0 and 100, and it only grows.

  In \<^verbatim>\<open>app3.py\<close> it starts as the ten random integers from 50 to 94.  Every run of the
  script leaves it as it was or appends one element, and an appended element is
  \<open>int\<close> of the digit run extracted from a response of the model.  When the \<open>Home\<close> page
  runs with a resume and a job description, the instruction and the language are found,
  the model answers with a text that has a digit run before \<open>%\<close>, and the run is within
  the digit limit, that integer is appended.

  In \<^verbatim>\<open>appfinal.py\<close> it starts empty.  Every run leaves it as it was or appends one
  element, and an appended element is \<open>float\<close> of the digit run extracted from a
  response of the model: its exact value below \<open>2 ^ 53\<close>, in general the nearest 64-bit
  float or \<open>inf\<close>.  When the \<open>Analyze\<close> page runs with a resume and a job
  description, the language is found, and the model answers the first two tabs, the
  second with a text that has a digit run before \<open>%\<close>, that float is appended.

  No run modifies, removes or clears an element.
\<close>

theorem score_history_append_only:
  "(randint_draw rnd \<longrightarrow>
      historical_scores (app3_init rnd) = rnd \<and> length rnd = 10
      \<and> (\<forall>x \<in> set rnd. 50 \<le> x \<and> x < 95))
   \<and> (\<exists>new. historical_scores (fst (app3_run max_digits g P S lang page))
          = historical_scores S @ new
        \<and> (new = []
           \<or> (\<exists>p resp. g p = Inr resp \<and> (\<exists>i k. percent_at resp i k)
                 \<and> new = [int (digits_value (app3_extract_percentage resp))])))
   \<and> (truthy (a3_resume_text S) \<and> a3_job_desc S \<noteq> []
        \<and> get_prompt P (pystr ''percentage_match'') lang = Inr prompt
        \<and> app3_respond_in lang = Inr ri
        \<and> g (app3_prompt (a3_job_desc S) (or_empty (a3_resume_text S)) prompt ri) = Inr resp
        \<and> percent_at resp i k
        \<and> \<not> (0 < max_digits \<and> max_digits < length (app3_extract_percentage resp))
      \<longrightarrow> historical_scores (fst (app3_run max_digits g P S lang Home))
            = historical_scores S @ [int (digits_value (app3_extract_percentage resp))])
   \<and> (app3_reachable R \<longrightarrow> (\<forall>x \<in> set (historical_scores R). 0 \<le> x))
   \<and> scores appfinal_init = []
   \<and> (\<exists>new. scores (fst (appfinal_run gf Sf langf pagef)) = scores Sf @ new
        \<and> (new = []
           \<or> (\<exists>p resp. gf p = Inr resp \<and> (\<exists>i k. percent_at resp i k)
                 \<and> new = [round_double (digits_value (extract_match_percentage resp))])))
   \<and> (af_resume Sf \<noteq> [] \<and> af_job_desc Sf \<noteq> []
        \<and> lang_instruction langf = Inr ins
        \<and> gf (appfinal_prompt (af_job_desc Sf) (af_resume Sf) summary_tab ins) = Inr summary
        \<and> gf (appfinal_prompt (af_job_desc Sf) (af_resume Sf) match_tab ins) = Inr respf
        \<and> percent_at respf j l
      \<longrightarrow> scores (fst (appfinal_run gf Sf langf AF_Analyze))
            = scores Sf @ [round_double (digits_value (extract_match_percentage respf))])
   \<and> (appfinal_reachable Rf \<longrightarrow> list_all pf_nonneg (scores Rf))
   \<and> (n < 2 ^ 53 \<longrightarrow> round_double n = Finite (real n))"
proof -
  have a: "randint_draw rnd \<longrightarrow>
      historical_scores (app3_init rnd) = rnd \<and> length rnd = 10
      \<and> (\<forall>x \<in> set rnd. 50 \<le> x \<and> x < 95)"
    by (simp add: randint_draw_def app3_init_def)
  have b: "app3_reachable R \<longrightarrow> (\<forall>x \<in> set (historical_scores R). 0 \<le> x)"
    using app3_reachable_history by blast
  have c: "scores appfinal_init = []" by (simp add: appfinal_init_def)
  have d: "appfinal_reachable Rf \<longrightarrow> list_all pf_nonneg (scores Rf)"
    using appfinal_reachable_scores by blast
  have e: "n < 2 ^ 53 \<longrightarrow> round_double n = Finite (real n)"
    using round_double_exact by blast
  have f: "truthy (a3_resume_text S) \<and> a3_job_desc S \<noteq> []
        \<and> get_prompt P (pystr ''percentage_match'') lang = Inr prompt
        \<and> app3_respond_in lang = Inr ri
        \<and> g (app3_prompt (a3_job_desc S) (or_empty (a3_resume_text S)) prompt ri) = Inr resp
        \<and> percent_at resp i k
        \<and> \<not> (0 < max_digits \<and> max_digits < length (app3_extract_percentage resp))
      \<longrightarrow> historical_scores (fst (app3_run max_digits g P S lang Home))
            = historical_scores S @ [int (digits_value (app3_extract_percentage resp))]"
    using app3_run_appends[of S P lang prompt ri g resp i k max_digits] by blast
  have h: "af_resume Sf \<noteq> [] \<and> af_job_desc Sf \<noteq> []
        \<and> lang_instruction langf = Inr ins
        \<and> gf (appfinal_prompt (af_job_desc Sf) (af_resume Sf) summary_tab ins) = Inr summary
        \<and> gf (appfinal_prompt (af_job_desc Sf) (af_resume Sf) match_tab ins) = Inr respf
        \<and> percent_at respf j l
      \<longrightarrow> scores (fst (appfinal_run gf Sf langf AF_Analyze))
            = scores Sf @ [round_double (digits_value (extract_match_percentage respf))]"
    using appfinal_run_appends[of Sf langf ins gf summary respf j l] by blast
  from a b c d e f h app3_run_new[of max_digits g P S lang page]
    appfinal_run_new[of gf Sf langf pagef]
  show ?thesis by (intro conjI) assumption+
qed

text \<open>
  The hypotheses hold in the two example sessions: both are reachable, the history of
  the first is the draw followed by 150, and the scores of the second are the single
  float 150.
\<close>

theorem score_history_append_only_witness:
  "randint_draw demo_draw
   \<and> app3_reachable demo_session
   \<and> historical_scores demo_session = demo_draw @ [150]
   \<and> list_all (\<lambda>x. 0 \<le> x) (historical_scores demo_session)
   \<and> appfinal_reachable demo_final_session
   \<and> scores demo_final_session = [Finite 150]
   \<and> list_all pf_nonneg (scores demo_final_session)"
proof -
  let ?S = "\<lparr>af_resume = demo_resume, af_job_desc = demo_job, af_language = pystr ''en'',
        scores = []\<rparr>"
  note T = score_history_append_only[where rnd = demo_draw and R = demo_session
      and Rf = demo_final_session and gf = backend_150 and Sf = ?S
      and langf = "pystr ''en''" and ins = "[]" and summary = "pystr ''150%''"
      and respf = "pystr ''150%''" and j = 0 and l = 3 and n = 150]
  have p1: "af_resume ?S \<noteq> []" "af_job_desc ?S \<noteq> []"
    by (simp_all add: demo_resume_def demo_job_def pystr_def)
  have p2: "lang_instruction (pystr ''en'') = Inr []" by (simp add: lang_instruction_def)
  have p3: "backend_150 (appfinal_prompt (af_job_desc ?S) (af_resume ?S) summary_tab [])
      = Inr (pystr ''150%'')"
    "backend_150 (appfinal_prompt (af_job_desc ?S) (af_resume ?S) match_tab [])
      = Inr (pystr ''150%'')"
    by (simp_all add: backend_150_def)
  have small: "(150::nat) < 2 ^ 53" by simp
  from T p1 p2 p3 percent_at_150 have
    "scores (fst (appfinal_run backend_150 ?S (pystr ''en'') AF_Analyze))
       = scores ?S @ [round_double (digits_value (extract_match_percentage (pystr ''150%'')))]"
    by blast
  moreover from T small have "round_double 150 = Finite (real (150::nat))" by blast
  ultimately have s: "scores demo_final_session = [Finite 150]"
    by (simp add: demo_final_session_unfold extract_match_150 value_150)
  from T demo_session_reachable have "\<forall>x \<in> set (historical_scores demo_session). 0 \<le> x"
    by blast
  then have h: "list_all (\<lambda>x. 0 \<le> x) (historical_scores demo_session)"
    by (simp add: list_all_iff)
  from T demo_final_session_reachable have "list_all pf_nonneg (scores demo_final_session)"
    by blast
  with s h show ?thesis
    using demo_draw_ok demo_session_reachable demo_final_session_reachable
    by (simp add: demo_session_eq)
qed

text \<open>
  C8 as stated fails in \<^verbatim>\<open>app3.py\<close>: the history does not start empty, and after the
  model has answered \<open>150%\<close> it holds 150, outside the range from 0 to 100.
\<close>

theorem score_history_counterexample:
  "randint_draw demo_draw
   \<and> historical_scores (app3_init demo_draw) = [50, 51, 52, 53, 54, 55, 56, 57, 58, 59]
   \<and> app3_reachable demo_session
   \<and> historical_scores demo_session = [50, 51, 52, 53, 54, 55, 56, 57, 58, 59, 150]"
  using demo_draw_ok demo_session_reachable
  by (simp add: demo_session_eq app3_init_def demo_draw_def)

text \<open>
  C4.  The summary statistics are computed only over a non-empty list of scores.  In
  \<^verbatim>\<open>appfinal.py\<close> the expander computes nothing for the empty list, and whenever it
  calls \<open>score_stats\<close> the list is non-empty.  In \<^verbatim>\<open>app3.py\<close> the history is non-empty
  in every state a session can reach, so \<open>calculate_match_stats\<close> is only ever called
  on a non-empty list.  On the empty list neither function has a result: both end
  with \<open>ValueError\<close>.
\<close>

theorem statistics_need_scores:
  "advanced_analysis_col2 [] = None
   \<and> (advanced_analysis_col2 xs = Some r \<longrightarrow> xs \<noteq> [] \<and> r = score_stats xs)
   \<and> (app3_reachable S \<longrightarrow> historical_scores S \<noteq> [])
   \<and> score_stats [] = Inl ValueError
   \<and> calculate_match_stats [] = Inl ValueError"
proof -
  have a: "advanced_analysis_col2 [] = None" by (simp add: advanced_analysis_col2_def)
  have b: "advanced_analysis_col2 xs = Some r \<longrightarrow> xs \<noteq> [] \<and> r = score_stats xs"
    by (auto simp add: advanced_analysis_col2_def split: if_splits)
  have c: "app3_reachable S \<longrightarrow> historical_scores S \<noteq> []"
  proof
    assume "app3_reachable S"
    then have "10 \<le> length (historical_scores S)" using app3_reachable_history by blast
    then show "historical_scores S \<noteq> []" by auto
  qed
  have d: "score_stats [] = Inl ValueError" by (simp add: score_stats_def pf_min_def)
  have e: "calculate_match_stats [] = Inl ValueError"
    by (simp add: calculate_match_stats_def np_max_def)
  from a b c d e show ?thesis by blast
qed

text \<open>
  The hypotheses hold for the single score 62, for which the expander calls
  \<open>score_stats\<close>, and for the example session of \<^verbatim>\<open>app3.py\<close>.
\<close>

theorem statistics_need_scores_witness:
  "advanced_analysis_col2 [Finite 62] = Some (score_stats [Finite 62])
   \<and> app3_reachable demo_session
   \<and> historical_scores demo_session \<noteq> []"
proof -
  have a: "advanced_analysis_col2 [Finite 62] = Some (score_stats [Finite 62])"
    by (simp add: advanced_analysis_col2_def)
  from statistics_need_scores[of "[Finite 62]" "score_stats [Finite 62]" demo_session] a
    demo_session_reachable
  show ?thesis by simp
qed

end
